theory Spec2Isabelle
  imports Main "HOL-Library.Sublist" "HOL-Library.Word"
begin

section \<open>An FTP client (package ftp, v2/ftp.go): the protocol engine\<close>

text \<open>
  The client talks to a server over a control connection (a \<open>textproto.Conn\<close>) and over
  short-lived data sockets. Both are outside the program, so the embedding keeps a log of
  every operation the client performs on them (\<open>wire\<close>) and takes the outcome of each
  operation from an environment \<open>E\<close> that may answer depending on everything that happened
  before. Each Go method becomes a function from the session to its Go results and the
  updated session. A Go run-time panic is the result \<open>Panic\<close>.
\<close>

subsection \<open>Go values: errors, panics, strings, integers\<close>

datatype error =
    NetError string               \<comment> \<open>socket-level failure: dial, read, write, close, time-out\<close>
  | ProtocolError string          \<comment> \<open>\<open>textproto.ProtocolError\<close>: a reply that is no reply line\<close>
  | TextprotoError int string     \<comment> \<open>\<open>&textproto.Error{Code, Msg}\<close>\<close>
  | ErrorsNew string              \<comment> \<open>\<open>errors.New(text)\<close>\<close>
  | ErrSyntax string              \<comment> \<open>\<open>*strconv.NumError\<close> with \<open>strconv.ErrSyntax\<close>\<close>
  | ErrRange string               \<comment> \<open>\<open>*strconv.NumError\<close> with \<open>strconv.ErrRange\<close>\<close>
  | ContextError string           \<comment> \<open>\<open>ctx.Err()\<close>\<close>

datatype 'a outcome =
    Return 'a
  | Panic string

text \<open>\<open>strings.Index\<close>: the index of the first instance of \<open>sub\<close> in \<open>s\<close>, or \<open>-1\<close>.\<close>

fun Index :: "string \<Rightarrow> string \<Rightarrow> int" where
  "Index [] sub = (if sub = [] then 0 else - 1)"
| "Index (x # xs) sub =
     (if prefix sub (x # xs) then 0
      else (let i = Index xs sub in if i = - 1 then - 1 else i + 1))"

text \<open>\<open>strings.LastIndex\<close>: the index of the last instance of \<open>sub\<close> in \<open>s\<close>, or \<open>-1\<close>.\<close>

fun LastIndex :: "string \<Rightarrow> string \<Rightarrow> int" where
  "LastIndex [] sub = (if sub = [] then 0 else - 1)"
| "LastIndex (x # xs) sub =
     (let i = LastIndex xs sub in
      if i \<noteq> - 1 then i + 1 else if prefix sub (x # xs) then 0 else - 1)"

text \<open>
  The slice expression \<open>s[lo:hi]\<close> on a string: Go panics unless
  \<open>0 <= lo <= hi <= len(s)\<close>.
\<close>

definition slice :: "string \<Rightarrow> int \<Rightarrow> int \<Rightarrow> string outcome" where
  "slice s lo hi =
     (if 0 \<le> lo \<and> lo \<le> hi \<and> hi \<le> int (length s)
      then Return (take (nat (hi - lo)) (drop (nat lo) s))
      else Panic ''slice bounds out of range'')"

text \<open>\<open>strings.Split(s, sep)\<close> for a separator of one byte (the source splits on \<open>","\<close>).\<close>

fun Split :: "string \<Rightarrow> char \<Rightarrow> string list" where
  "Split [] sep = [[]]"
| "Split (x # xs) sep =
     (if x = sep then [] # Split xs sep
      else (case Split xs sep of [] \<Rightarrow> [[x]] | h # t \<Rightarrow> (x # h) # t))"

text \<open>\<open>strings.Join(elems, sep)\<close>.\<close>

fun Join :: "string list \<Rightarrow> string \<Rightarrow> string" where
  "Join [] sep = []"
| "Join [x] sep = x"
| "Join (x # y # ys) sep = x @ sep @ Join (y # ys) sep"

definition digit :: "char \<Rightarrow> int option" where
  "digit ch =
     (if ch = CHR ''0'' then Some 0 else if ch = CHR ''1'' then Some 1
      else if ch = CHR ''2'' then Some 2 else if ch = CHR ''3'' then Some 3
      else if ch = CHR ''4'' then Some 4 else if ch = CHR ''5'' then Some 5
      else if ch = CHR ''6'' then Some 6 else if ch = CHR ''7'' then Some 7
      else if ch = CHR ''8'' then Some 8 else if ch = CHR ''9'' then Some 9
      else None)"

text \<open>
  \<open>strconv.ParseUint(s, 10, 64)\<close> on a string that is not empty, with the value read so
  far: a byte that is no digit is a syntax error; a digit that takes the value beyond
  \<open>2^64 - 1\<close> is a range error, reported at once, whatever follows.
\<close>

datatype parsed = Value int | Syntax | Range

fun ParseUint :: "string \<Rightarrow> int \<Rightarrow> parsed" where
  "ParseUint [] n = Value n"
| "ParseUint (ch # s) n =
     (case digit ch of
        None \<Rightarrow> Syntax
      | Some d \<Rightarrow>
          if (2 ^ 64 - 1) div 10 + 1 \<le> n then Range
          else if 2 ^ 64 - 1 < n * 10 + d then Range
          else ParseUint s (n * 10 + d))"

text \<open>
  \<open>strconv.Atoi\<close> (and \<open>strconv.ParseInt(s, 10, 64)\<close>) with a 64-bit \<open>int\<close>: an optional
  sign, then one or more decimal digits; a syntax error gives 0, a value out of range gives
  the nearest bound, both with an error.
\<close>

definition Atoi :: "string \<Rightarrow> int \<times> error option" where
  "Atoi s =
     (let neg = (s \<noteq> [] \<and> hd s = CHR ''-'');
          body = (if s \<noteq> [] \<and> (hd s = CHR ''-'' \<or> hd s = CHR ''+'') then tl s else s)
      in if body = [] then (0, Some (ErrSyntax s))
         else (case ParseUint body 0 of
                 Syntax \<Rightarrow> (0, Some (ErrSyntax s))
               | Range \<Rightarrow> (if neg then - (2 ^ 63) else 2 ^ 63 - 1, Some (ErrRange s))
               | Value n \<Rightarrow>
                   if neg then (if 2 ^ 63 < n then (- (2 ^ 63), Some (ErrRange s))
                                else (- n, None))
                   else (if 2 ^ 63 \<le> n then (2 ^ 63 - 1, Some (ErrRange s))
                         else (n, None))))"

text \<open>Arithmetic on Go's 64-bit \<open>int\<close> wraps around.\<close>

definition int64 :: "int \<Rightarrow> int" where
  "int64 x = (x + 2 ^ 63) mod 2 ^ 64 - 2 ^ 63"

text \<open>Go's integer division truncates towards zero.\<close>

definition quot :: "int \<Rightarrow> int \<Rightarrow> int" where
  "quot a b = (if (a < 0) = (b < 0) then \<bar>a\<bar> div \<bar>b\<bar> else - (\<bar>a\<bar> div \<bar>b\<bar>))"

subsection \<open>Status codes\<close>

text \<open>
  Modelled from the spec: the constants \<open>StatusReady\<close> ... \<open>StatusNotImplemented\<close> are
  declared in a file of the package that is not part of the sources at hand; the values are
  those of the table of status codes in the specification (section 6).
\<close>

definition StatusReady :: int where "StatusReady = 220"
definition StatusUserOK :: int where "StatusUserOK = 331"
definition StatusLoggedIn :: int where "StatusLoggedIn = 230"
definition StatusCommandOK :: int where "StatusCommandOK = 200"
definition StatusSystem :: int where "StatusSystem = 211"
definition StatusBadArguments :: int where "StatusBadArguments = 501"
definition StatusCommandNotImplemented :: int where "StatusCommandNotImplemented = 202"
definition StatusPassiveMode :: int where "StatusPassiveMode = 227"
definition StatusExtendedPassiveMode :: int where "StatusExtendedPassiveMode = 229"
definition StatusPathCreated :: int where "StatusPathCreated = 257"
definition StatusRequestedFileActionOK :: int where "StatusRequestedFileActionOK = 250"
definition StatusRequestFilePending :: int where "StatusRequestFilePending = 350"
definition StatusAlreadyOpen :: int where "StatusAlreadyOpen = 125"
definition StatusAboutToSend :: int where "StatusAboutToSend = 150"
definition StatusClosingDataConnection :: int where "StatusClosingDataConnection = 226"
definition StatusFile :: int where "StatusFile = 213"
definition StatusNotImplemented :: int where "StatusNotImplemented = 502"

subsection \<open>The session, the wire and the environment\<close>

text \<open>An argument of a command format: \<open>%s\<close> takes a string, \<open>%d\<close> a \<open>uint64\<close>.\<close>

datatype arg = S string | U "64 word"

datatype dialer =
    DialFunc      \<comment> \<open>\<open>c.options.dialFunc(ctx, "tcp", addr)\<close>\<close>
  | DialTLS       \<comment> \<open>\<open>c.options.dialer.Dial\<close>, wrapped by \<open>tls.Client\<close>\<close>
  | DialPlain     \<comment> \<open>\<open>c.options.dialer.Dial("tcp", addr)\<close>\<close>

text \<open>
  The operations on the two connections. A data socket is named by the position of its
  \<open>Dial\<close> in the log. \<open>Dial d host port\<close> dials the address
  \<open>net.JoinHostPort(host, strconv.Itoa(port))\<close>.
\<close>

datatype event =
    Cmd string "arg list"       \<comment> \<open>\<open>c.conn.Cmd(format, args...)\<close>: one command line written\<close>
  | ReadResponse int            \<comment> \<open>\<open>c.conn.ReadResponse(expectCode)\<close>: one reply read\<close>
  | ConnClose                   \<comment> \<open>\<open>c.conn.Close()\<close>\<close>
  | Dial dialer string int      \<comment> \<open>a data socket dialled\<close>
  | DataClose nat               \<comment> \<open>\<open>conn.Close()\<close> on a data socket\<close>
  | DataCopy nat                \<comment> \<open>\<open>io.Copy(conn, r)\<close>: the caller's reader copied into the socket\<close>
  | DataScan nat                \<comment> \<open>a \<open>bufio.Scanner\<close> run over the data socket\<close>

record dialOptions =
  tlsConfig :: bool       \<comment> \<open>\<open>tlsConfig != nil\<close>\<close>
  disableEPSV :: bool
  dialFunc :: bool        \<comment> \<open>\<open>dialFunc != nil\<close>\<close>

record ServerConn =
  options :: dialOptions
  wire :: "event list"            \<comment> \<open>the field \<open>conn\<close>: what has happened on the connections\<close>
  host :: string
  features :: "string \<rightharpoonup> string"
  skipEPSV :: bool
  mlstSupported :: bool

datatype EntryType = EntryTypeFile | EntryTypeFolder | EntryTypeLink

record Entry =
  Name :: string
  Target :: string
  Type :: EntryType
  Size :: "64 word"
  Time :: int

text \<open>
  The environment: the server, the network, the caller's context and reader. Every outcome
  may depend on the log so far.
  \<^item> \<open>cmdErr\<close>: the error of writing a command line, if any;
  \<^item> \<open>response\<close>: the next reply on the control connection, a code and a message, or the
    error of reading it together with the code that \<open>ReadResponse\<close> returns with it (0, or
    the code below 100 of a line that is no reply);
  \<^item> \<open>dialErr\<close>, \<open>closeErr\<close>, \<open>copyErr\<close>, \<open>connCloseErr\<close>: the errors of dialling a data
    socket, closing it, copying into it, closing the control connection;
  \<^item> \<open>scanned\<close>: the lines that the scanner yields on the data socket, each with the
    \<open>ctx.Err()\<close> seen after it, and the final \<open>scanner.Err()\<close>;
  \<^item> \<open>parseListLine\<close>, \<open>parseRFC3659ListLine\<close>: the two listing parsers of the package
    (not part of the sources at hand), at the time and location of the call.
\<close>

record env =
  cmdErr :: "event list \<Rightarrow> error option"
  response :: "event list \<Rightarrow> (int \<times> error) + (int \<times> string)"
  dialErr :: "event list \<Rightarrow> error option"
  closeErr :: "event list \<Rightarrow> error option"
  copyErr :: "event list \<Rightarrow> error option"
  connCloseErr :: "event list \<Rightarrow> error option"
  scanned :: "event list \<Rightarrow> (string \<times> error option) list \<times> error option"
  parseListLine :: "string \<Rightarrow> error + Entry"
  parseRFC3659ListLine :: "string \<Rightarrow> error + Entry"

definition emit :: "event \<Rightarrow> ServerConn \<Rightarrow> ServerConn" where
  "emit e c = c\<lparr>wire := wire c @ [e]\<rparr>"

text \<open>
  \<open>textproto.Reader.ReadResponse\<close>: a reply whose code does not match \<open>expectCode\<close> is
  returned together with a \<open>textproto.Error\<close>; \<open>expectCode\<close> may be a whole code, its first
  two digits or its first digit, and anything else (the source passes \<open>-1\<close>) matches all.
\<close>

definition expect ::
  "int \<Rightarrow> (int \<times> error) + (int \<times> string) \<Rightarrow> int \<times> string \<times> error option" where
  "expect expectCode reply =
     (case reply of
        Inl (code, err) \<Rightarrow> (code, [], Some err)
      | Inr (code, message) \<Rightarrow>
          if (1 \<le> expectCode \<and> expectCode < 10 \<and> quot code 100 \<noteq> expectCode)
             \<or> (10 \<le> expectCode \<and> expectCode < 100 \<and> quot code 10 \<noteq> expectCode)
             \<or> (100 \<le> expectCode \<and> expectCode < 1000 \<and> code \<noteq> expectCode)
          then (code, message, Some (TextprotoError code message))
          else (code, message, None))"

definition ReadResponse_conn ::
  "env \<Rightarrow> int \<Rightarrow> ServerConn \<Rightarrow> (int \<times> string \<times> error option) \<times> ServerConn" where
  "ReadResponse_conn E expectCode c =
     (expect expectCode (response E (wire c)), emit (ReadResponse expectCode) c)"

text \<open>\<open>textproto.Conn.Cmd\<close>: the command line is written to the control connection.\<close>

definition Cmd_conn ::
  "env \<Rightarrow> string \<Rightarrow> arg list \<Rightarrow> ServerConn \<Rightarrow> error option \<times> ServerConn" where
  "Cmd_conn E format args c = (cmdErr E (wire c), emit (Cmd format args) c)"

text \<open>\<open>Close\<close> of a data socket.\<close>

definition Close_data :: "env \<Rightarrow> nat \<Rightarrow> ServerConn \<Rightarrow> error option \<times> ServerConn" where
  "Close_data E sock c = (closeErr E (wire c), emit (DataClose sock) c)"

text \<open>
  \<open>cmd\<close> (lines 438-453). The goroutine that closes the connection when the context is done
  is not modelled; what it causes is one of the errors the environment may give.
\<close>

definition cmd ::
  "env \<Rightarrow> int \<Rightarrow> string \<Rightarrow> arg list \<Rightarrow> ServerConn
     \<Rightarrow> (int \<times> string \<times> error option) \<times> ServerConn" where
  "cmd E expected format args c =
     (case Cmd_conn E format args c of
        (Some err, c1) \<Rightarrow> ((0, [], Some err), c1)
      | (None, c1) \<Rightarrow> ReadResponse_conn E expected c1)"

subsection \<open>Negotiating a data connection\<close>

text \<open>\<open>epsv\<close> (lines 338-352).\<close>

definition epsv :: "env \<Rightarrow> ServerConn \<Rightarrow> (int \<times> error option) outcome \<times> ServerConn" where
  "epsv E c =
     (case cmd E StatusExtendedPassiveMode ''EPSV'' [] c of
        ((code, line, Some err), c1) \<Rightarrow> (Return (0, Some err), c1)
      | ((code, line, None), c1) \<Rightarrow>
          (let start = Index line ''|||''; end = LastIndex line ''|'' in
           if start = - 1 \<or> end = - 1
           then (Return (0, Some (ErrorsNew ''invalid EPSV response format'')), c1)
           else (case slice line (start + 3) end of
                   Panic p \<Rightarrow> (Panic p, c1)
                 | Return portText \<Rightarrow> (Return (Atoi portText), c1))))"

text \<open>\<open>pasv\<close> (lines 355-396).\<close>

definition pasv ::
  "env \<Rightarrow> ServerConn \<Rightarrow> (string \<times> int \<times> error option) outcome \<times> ServerConn" where
  "pasv E c =
     (case cmd E StatusPassiveMode ''PASV'' [] c of
        ((code, line, Some err), c1) \<Rightarrow> (Return ([], 0, Some err), c1)
      | ((code, line, None), c1) \<Rightarrow>
          (let start = Index line ''(''; end = LastIndex line '')'' in
           if start = - 1 \<or> end = - 1
           then (Return ([], 0, Some (ErrorsNew ''invalid PASV response format'')), c1)
           else (case slice line (start + 1) end of
                   Panic p \<Rightarrow> (Panic p, c1)
                 | Return inner \<Rightarrow>
                     (let pasvData = Split inner CHR '','' in
                      if length pasvData < 6
                      then (Return ([], 0, Some (ErrorsNew ''invalid PASV response format'')), c1)
                      else (case Atoi (pasvData ! 4) of
                              (portPart1, Some err1) \<Rightarrow> (Return ([], 0, Some err1), c1)
                            | (portPart1, None) \<Rightarrow>
                                (case Atoi (pasvData ! 5) of
                                   (portPart2, Some err2) \<Rightarrow> (Return ([], 0, Some err2), c1)
                                 | (portPart2, None) \<Rightarrow>
                                     (Return (Join (take 4 pasvData) ''.'',
                                              int64 (int64 (portPart1 * 256) + portPart2),
                                              None), c1)))))))"

text \<open>\<open>getDataConnPort\<close> (lines 400-411).\<close>

definition getDataConnPort ::
  "env \<Rightarrow> ServerConn \<Rightarrow> (string \<times> int \<times> error option) outcome \<times> ServerConn" where
  "getDataConnPort E c =
     (if \<not> disableEPSV (options c) \<and> \<not> skipEPSV c
      then (case epsv E c of
              (Panic p, c1) \<Rightarrow> (Panic p, c1)
            | (Return (port, None), c1) \<Rightarrow> (Return (host c1, port, None), c1)
            | (Return (port, Some err), c1) \<Rightarrow> pasv E (c1\<lparr>skipEPSV := True\<rparr>))
      else pasv E c)"

text \<open>\<open>CurrentDir\<close> (lines 588-602).\<close>

definition CurrentDir :: "env \<Rightarrow> ServerConn \<Rightarrow> (string \<times> error option) outcome \<times> ServerConn" where
  "CurrentDir E c =
     (case cmd E StatusPathCreated ''PWD'' [] c of
        ((code, msg, Some err), c1) \<Rightarrow> (Return ([], Some err), c1)
      | ((code, msg, None), c1) \<Rightarrow>
          (let start = Index msg ''\"''; end = LastIndex msg ''\"'' in
           if start = - 1 \<or> end = - 1
           then (Return ([], Some (ErrorsNew ''unsuported PWD response format'')), c1)
           else (case slice msg (start + 1) end of
                   Panic p \<Rightarrow> (Panic p, c1)
                 | Return dir \<Rightarrow> (Return (dir, None), c1))))"

text \<open>\<open>openDataConn\<close> (lines 414-434).\<close>

definition openDataConn :: "env \<Rightarrow> ServerConn \<Rightarrow> (error + nat) outcome \<times> ServerConn" where
  "openDataConn E c =
     (case getDataConnPort E c of
        (Panic p, c1) \<Rightarrow> (Panic p, c1)
      | (Return (h, port, Some err), c1) \<Rightarrow> (Return (Inl err), c1)
      | (Return (h, port, None), c1) \<Rightarrow>
          (let d = (if dialFunc (options c1) then DialFunc
                    else if tlsConfig (options c1) then DialTLS else DialPlain)
           in case dialErr E (wire c1) of
                Some err \<Rightarrow> (Return (Inl err), emit (Dial d h port) c1)
              | None \<Rightarrow> (Return (Inr (length (wire c1))), emit (Dial d h port) c1)))"

subsection \<open>Commands with a data connection\<close>

text \<open>\<open>cmdDataConnFrom\<close>, lines 480-496: the transfer command and its preliminary reply.\<close>

definition cmdDataConnFrom_transfer ::
  "env \<Rightarrow> nat \<Rightarrow> string \<Rightarrow> arg list \<Rightarrow> ServerConn \<Rightarrow> (error + nat) \<times> ServerConn" where
  "cmdDataConnFrom_transfer E sock format args c =
     (case Cmd_conn E format args c of
        (Some err, c1) \<Rightarrow> (Inl err, snd (Close_data E sock c1))
      | (None, c1) \<Rightarrow>
          (case ReadResponse_conn E (- 1) c1 of
             ((code, msg, Some err), c2) \<Rightarrow> (Inl err, snd (Close_data E sock c2))
           | ((code, msg, None), c2) \<Rightarrow>
               if code \<noteq> StatusAlreadyOpen \<and> code \<noteq> StatusAboutToSend
               then (Inl (TextprotoError code msg), snd (Close_data E sock c2))
               else (Inr sock, c2)))"

text \<open>\<open>cmdDataConnFrom\<close> (lines 457-497).\<close>

definition cmdDataConnFrom ::
  "env \<Rightarrow> 64 word \<Rightarrow> string \<Rightarrow> arg list \<Rightarrow> ServerConn
     \<Rightarrow> (error + nat) outcome \<times> ServerConn" where
  "cmdDataConnFrom E offset format args c =
     (case openDataConn E c of
        (Panic p, c1) \<Rightarrow> (Panic p, c1)
      | (Return (Inl err), c1) \<Rightarrow> (Return (Inl err), c1)
      | (Return (Inr sock), c1) \<Rightarrow>
          if offset \<noteq> 0
          then (case cmd E StatusRequestFilePending ''REST %d'' [U offset] c1 of
                  ((code, msg, Some err), c2) \<Rightarrow>
                    (Return (Inl err), snd (Close_data E sock c2))
                | ((code, msg, None), c2) \<Rightarrow>
                    (case cmdDataConnFrom_transfer E sock format args c2 of
                       (r, c3) \<Rightarrow> (Return r, c3)))
          else (case cmdDataConnFrom_transfer E sock format args c1 of
                  (r, c3) \<Rightarrow> (Return r, c3)))"

text \<open>A \<open>Response\<close>; its field \<open>c\<close> is the session, which the functions below take.\<close>

record Response =
  conn :: nat
  closed :: bool

text \<open>\<open>Response.Close\<close> (lines 764-775).\<close>

definition Close ::
  "env \<Rightarrow> Response \<Rightarrow> ServerConn \<Rightarrow> error option \<times> Response \<times> ServerConn" where
  "Close E r c =
     (if closed r then (None, r, c)
      else (case Close_data E (conn r) c of
              (err, c1) \<Rightarrow>
                (case ReadResponse_conn E StatusClosingDataConnection c1 of
                   ((code, msg, err2), c2) \<Rightarrow>
                     ((case err2 of Some e2 \<Rightarrow> Some e2 | None \<Rightarrow> err),
                      r\<lparr>closed := True\<rparr>, c2))))"

text \<open>
  The scanning loop of \<open>NameList\<close> (lines 518-524): \<open>Inl\<close> is the return from inside the
  loop, \<open>Inr\<close> the entries when the scanner has stopped. The renewal of the deadline of the
  socket after each line acts on time only and is not modelled.
\<close>

fun NameList_loop :: "(string \<times> error option) list \<Rightarrow> string list \<Rightarrow> error + string list" where
  "NameList_loop [] entries = Inr entries"
| "NameList_loop ((text, ctxErr) # rest) entries =
     (case ctxErr of
        Some err \<Rightarrow> Inl err
      | None \<Rightarrow> NameList_loop rest (entries @ [text]))"

text \<open>\<open>NameList\<close> (lines 507-529); the deferred \<open>r.Close()\<close> runs last, its error is dropped.\<close>

definition NameList ::
  "env \<Rightarrow> string \<Rightarrow> ServerConn \<Rightarrow> (string list \<times> error option) outcome \<times> ServerConn" where
  "NameList E path c =
     (case cmdDataConnFrom E 0 ''NLST %s'' [S path] c of
        (Panic p, c1) \<Rightarrow> (Panic p, c1)
      | (Return (Inl err), c1) \<Rightarrow> (Return ([], Some err), c1)
      | (Return (Inr sock), c1) \<Rightarrow>
          (let r = \<lparr>conn = sock, closed = False\<rparr>;
               c2 = emit (DataScan sock) c1;
               result = (case NameList_loop (fst (scanned E (wire c1))) [] of
                           Inl err \<Rightarrow> ([], Some err)
                         | Inr entries \<Rightarrow> (entries, snd (scanned E (wire c1))))
           in (Return result, snd (snd (Close E r c2)))))"

text \<open>The scanning loop of \<open>List\<close> (lines 555-564): a line that does not parse is skipped.\<close>

fun List_loop ::
  "(string \<Rightarrow> error + Entry) \<Rightarrow> (string \<times> error option) list \<Rightarrow> Entry list
     \<Rightarrow> error + Entry list" where
  "List_loop parser [] entries = Inr entries"
| "List_loop parser ((text, ctxErr) # rest) entries =
     (let entries1 = (case parser text of Inr entry \<Rightarrow> entries @ [entry] | Inl err \<Rightarrow> entries)
      in case ctxErr of
           Some err \<Rightarrow> Inl err
         | None \<Rightarrow> List_loop parser rest entries1)"

text \<open>\<open>List\<close> (lines 532-569).\<close>

definition List ::
  "env \<Rightarrow> string \<Rightarrow> ServerConn \<Rightarrow> (Entry list \<times> error option) outcome \<times> ServerConn" where
  "List E path c =
     (let cmdName = (if mlstSupported c then ''MLSD'' else ''LIST'');
          parser = (if mlstSupported c then parseRFC3659ListLine E else parseListLine E)
      in case cmdDataConnFrom E 0 ''%s %s'' [S cmdName, S path] c of
           (Panic p, c1) \<Rightarrow> (Panic p, c1)
         | (Return (Inl err), c1) \<Rightarrow> (Return ([], Some err), c1)
         | (Return (Inr sock), c1) \<Rightarrow>
             (let r = \<lparr>conn = sock, closed = False\<rparr>;
                  c2 = emit (DataScan sock) c1;
                  result = (case List_loop parser (fst (scanned E (wire c1))) [] of
                              Inl err \<Rightarrow> ([], Some err)
                            | Inr entries \<Rightarrow>
                                (case snd (scanned E (wire c1)) of
                                   Some err \<Rightarrow> ([], Some err)
                                 | None \<Rightarrow> (entries, None)))
              in (Return result, snd (snd (Close E r c2)))))"

text \<open>\<open>RetrFrom\<close> (lines 626-633) and \<open>Retr\<close> (lines 618-620).\<close>

definition RetrFrom ::
  "env \<Rightarrow> string \<Rightarrow> 64 word \<Rightarrow> ServerConn \<Rightarrow> (error + Response) outcome \<times> ServerConn" where
  "RetrFrom E path offset c =
     (case cmdDataConnFrom E offset ''RETR %s'' [S path] c of
        (Panic p, c1) \<Rightarrow> (Panic p, c1)
      | (Return (Inl err), c1) \<Rightarrow> (Return (Inl err), c1)
      | (Return (Inr sock), c1) \<Rightarrow> (Return (Inr \<lparr>conn = sock, closed = False\<rparr>), c1))"

definition Retr ::
  "env \<Rightarrow> string \<Rightarrow> ServerConn \<Rightarrow> (error + Response) outcome \<times> ServerConn" where
  "Retr E path c = RetrFrom E path 0 c"

text \<open>\<open>StorFrom\<close> (lines 648-661) and \<open>Stor\<close> (lines 639-641).\<close>

definition StorFrom ::
  "env \<Rightarrow> string \<Rightarrow> 64 word \<Rightarrow> ServerConn \<Rightarrow> (int \<times> error option) outcome \<times> ServerConn" where
  "StorFrom E path offset c =
     (case cmdDataConnFrom E offset ''STOR %s'' [S path] c of
        (Panic p, c1) \<Rightarrow> (Panic p, c1)
      | (Return (Inl err), c1) \<Rightarrow> (Return (0, Some err), c1)
      | (Return (Inr sock), c1) \<Rightarrow>
          (let err = copyErr E (wire c1);
               c2 = emit (DataCopy sock) c1;
               c3 = snd (Close_data E sock c2)
           in case err of
                Some e \<Rightarrow> (Return (0, Some e), c3)
              | None \<Rightarrow>
                  (case ReadResponse_conn E StatusClosingDataConnection c3 of
                     ((code, msg, err1), c4) \<Rightarrow> (Return (code, err1), c4))))"

definition Stor ::
  "env \<Rightarrow> string \<Rightarrow> ServerConn \<Rightarrow> (int \<times> error option) outcome \<times> ServerConn" where
  "Stor E path c = StorFrom E path 0 c"

subsection \<open>Directory operations\<close>

text \<open>\<open>ChangeDir\<close> (lines 573-576) and \<open>ChangeDirToParent\<close> (lines 581-584).\<close>

definition ChangeDir :: "env \<Rightarrow> string \<Rightarrow> ServerConn \<Rightarrow> error option \<times> ServerConn" where
  "ChangeDir E path c =
     (case cmd E StatusRequestedFileActionOK ''CWD %s'' [S path] c of
        ((code, msg, err), c1) \<Rightarrow> (err, c1))"

definition ChangeDirToParent :: "env \<Rightarrow> ServerConn \<Rightarrow> error option \<times> ServerConn" where
  "ChangeDirToParent E c =
     (case cmd E StatusRequestedFileActionOK ''CDUP'' [] c of
        ((code, msg, err), c1) \<Rightarrow> (err, c1))"

text \<open>\<open>FileSize\<close> (lines 605-612).\<close>

definition FileSize :: "env \<Rightarrow> string \<Rightarrow> ServerConn \<Rightarrow> (int \<times> error option) \<times> ServerConn" where
  "FileSize E path c =
     (case cmd E StatusFile ''SIZE %s'' [S path] c of
        ((code, msg, Some err), c1) \<Rightarrow> ((0, Some err), c1)
      | ((code, msg, None), c1) \<Rightarrow> (Atoi msg, c1))"

text \<open>\<open>Rename\<close> (lines 666-673).\<close>

definition Rename ::
  "env \<Rightarrow> string \<Rightarrow> string \<Rightarrow> ServerConn \<Rightarrow> (int \<times> error option) \<times> ServerConn" where
  "Rename E from to c =
     (case cmd E StatusRequestFilePending ''RNFR %s'' [S from] c of
        ((code, msg, Some err), c1) \<Rightarrow> ((code, Some err), c1)
      | ((code, msg, None), c1) \<Rightarrow>
          (case cmd E StatusRequestedFileActionOK ''RNTO %s'' [S to] c1 of
             ((code1, msg1, err1), c2) \<Rightarrow> ((code1, err1), c2)))"

text \<open>\<open>Delete\<close> (lines 677-680), \<open>MakeDir\<close> (lines 724-727), \<open>RemoveDir\<close> (lines 731-734).\<close>

definition Delete :: "env \<Rightarrow> string \<Rightarrow> ServerConn \<Rightarrow> (int \<times> error option) \<times> ServerConn" where
  "Delete E path c =
     (case cmd E StatusRequestedFileActionOK ''DELE %s'' [S path] c of
        ((code, msg, err), c1) \<Rightarrow> ((code, err), c1))"

definition MakeDir :: "env \<Rightarrow> string \<Rightarrow> ServerConn \<Rightarrow> (int \<times> error option) \<times> ServerConn" where
  "MakeDir E path c =
     (case cmd E StatusPathCreated ''MKD %s'' [S path] c of
        ((code, msg, err), c1) \<Rightarrow> ((code, err), c1))"

definition RemoveDir :: "env \<Rightarrow> string \<Rightarrow> ServerConn \<Rightarrow> (int \<times> error option) \<times> ServerConn" where
  "RemoveDir E path c =
     (case cmd E StatusRequestedFileActionOK ''RMD %s'' [S path] c of
        ((code, msg, err), c1) \<Rightarrow> ((code, err), c1))"

text \<open>
  The loop over the entries in \<open>RemoveDirRecur\<close> (lines 699-713); \<open>recur\<close> is the recursive
  call. A result with an error is the return from inside the loop; \<open>None\<close> is a recursive
  call that does not return.
\<close>

fun RemoveDirRecur_loop ::
  "(string \<Rightarrow> ServerConn \<Rightarrow> ((int \<times> error option) outcome \<times> ServerConn) option)
     \<Rightarrow> env \<Rightarrow> string \<Rightarrow> Entry list \<Rightarrow> int \<Rightarrow> ServerConn
     \<Rightarrow> ((int \<times> error option) outcome \<times> ServerConn) option" where
  "RemoveDirRecur_loop recur E currentDir [] code c = Some (Return (code, None), c)"
| "RemoveDirRecur_loop recur E currentDir (entry # rest) code c =
     (if Name entry \<noteq> ''..'' \<and> Name entry \<noteq> ''.''
      then (if Type entry = EntryTypeFolder
            then (case recur (currentDir @ ''/'' @ Name entry) c of
                    None \<Rightarrow> None
                  | Some (Panic p, c1) \<Rightarrow> Some (Panic p, c1)
                  | Some (Return (code1, Some err), c1) \<Rightarrow> Some (Return (code1, Some err), c1)
                  | Some (Return (code1, None), c1) \<Rightarrow>
                      RemoveDirRecur_loop recur E currentDir rest code1 c1)
            else (case Delete E (Name entry) c of
                    ((code1, Some err), c1) \<Rightarrow> Some (Return (code1, Some err), c1)
                  | ((code1, None), c1) \<Rightarrow>
                      RemoveDirRecur_loop recur E currentDir rest code1 c1))
      else RemoveDirRecur_loop recur E currentDir rest code c)"

text \<open>
  \<open>RemoveDirRecur\<close> (lines 684-720). The recursion follows the listings that the server
  sends and need not end, so the function takes the depth of recursion it may use: \<open>None\<close>
  means that this depth did not suffice.
\<close>

primrec RemoveDirRecur ::
  "nat \<Rightarrow> env \<Rightarrow> string \<Rightarrow> ServerConn \<Rightarrow> ((int \<times> error option) outcome \<times> ServerConn) option" where
  "RemoveDirRecur 0 = (\<lambda>E path c. None)"
| "RemoveDirRecur (Suc depth) = (\<lambda>E path c.
     case ChangeDir E path c of
       (Some err, c1) \<Rightarrow> Some (Return (0, Some err), c1)
     | (None, c1) \<Rightarrow>
         (case CurrentDir E c1 of
            (Panic p, c2) \<Rightarrow> Some (Panic p, c2)
          | (Return (currentDir, Some err), c2) \<Rightarrow> Some (Return (0, Some err), c2)
          | (Return (currentDir, None), c2) \<Rightarrow>
              (case List E currentDir c2 of
                 (Panic p, c3) \<Rightarrow> Some (Panic p, c3)
               | (Return (entries, Some err), c3) \<Rightarrow> Some (Return (0, Some err), c3)
               | (Return (entries, None), c3) \<Rightarrow>
                   (case RemoveDirRecur_loop (RemoveDirRecur depth E) E currentDir entries 0 c3 of
                      None \<Rightarrow> None
                    | Some (Panic p, c4) \<Rightarrow> Some (Panic p, c4)
                    | Some (Return (code, Some err), c4) \<Rightarrow> Some (Return (code, Some err), c4)
                    | Some (Return (code, None), c4) \<Rightarrow>
                        (case ChangeDirToParent E c4 of
                           (Some err, c5) \<Rightarrow> Some (Return (0, Some err), c5)
                         | (None, c5) \<Rightarrow>
                             (case RemoveDir E currentDir c5 of
                                ((code1, err1), c6) \<Rightarrow> Some (Return (code1, err1), c6)))))))"

subsection \<open>Logging in and out\<close>

text \<open>\<open>setUTF8\<close> (lines 308-335).\<close>

definition setUTF8 :: "env \<Rightarrow> ServerConn \<Rightarrow> error option \<times> ServerConn" where
  "setUTF8 E c =
     (if features c ''UTF8'' = None then (None, c)
      else (case cmd E (- 1) ''OPTS UTF8 ON'' [] c of
              ((code, message, Some err), c1) \<Rightarrow> (Some err, c1)
            | ((code, message, None), c1) \<Rightarrow>
                if code = StatusBadArguments then (None, c1)
                else if code = StatusCommandNotImplemented then (None, c1)
                else if code \<noteq> StatusCommandOK then (Some (ErrorsNew message), c1)
                else (None, c1)))"

text \<open>\<open>Login\<close>, lines 253-267: what follows the \<open>switch\<close> on the reply to \<open>USER\<close>.\<close>

definition Login_modes :: "env \<Rightarrow> ServerConn \<Rightarrow> error option \<times> ServerConn" where
  "Login_modes E c =
     (case cmd E StatusCommandOK ''TYPE I'' [] c of
        ((code, msg, Some err), c1) \<Rightarrow> (Some err, c1)
      | ((code, msg, None), c1) \<Rightarrow>
          (case setUTF8 E c1 of
             (err, c2) \<Rightarrow>
               if tlsConfig (options c2)
               then (err, snd (cmd E StatusCommandOK ''PROT P'' []
                                 (snd (cmd E StatusCommandOK ''PBSZ 0'' [] c2))))
               else (err, c2)))"

text \<open>\<open>Login\<close> (lines 236-268).\<close>

definition Login :: "env \<Rightarrow> string \<Rightarrow> string \<Rightarrow> ServerConn \<Rightarrow> error option \<times> ServerConn" where
  "Login E user password c =
     (case cmd E (- 1) ''USER %s'' [S user] c of
        ((code, message, Some err), c1) \<Rightarrow> (Some err, c1)
      | ((code, message, None), c1) \<Rightarrow>
          if code = StatusLoggedIn then Login_modes E c1
          else if code = StatusUserOK
          then (case cmd E StatusLoggedIn ''PASS %s'' [S password] c1 of
                  ((code1, msg1, Some err), c2) \<Rightarrow> (Some err, c2)
                | ((code1, msg1, None), c2) \<Rightarrow> Login_modes E c2)
          else (Some (ErrorsNew message), c1))"

text \<open>\<open>NoOp\<close> (lines 739-742), \<open>Logout\<close> (lines 745-748), \<open>Quit\<close> (lines 752-755).\<close>

definition NoOp :: "env \<Rightarrow> ServerConn \<Rightarrow> error option \<times> ServerConn" where
  "NoOp E c =
     (case cmd E StatusCommandOK ''NOOP'' [] c of ((code, msg, err), c1) \<Rightarrow> (err, c1))"

definition Logout :: "env \<Rightarrow> ServerConn \<Rightarrow> error option \<times> ServerConn" where
  "Logout E c =
     (case cmd E StatusReady ''REIN'' [] c of ((code, msg, err), c1) \<Rightarrow> (err, c1))"

definition Quit :: "env \<Rightarrow> ServerConn \<Rightarrow> error option \<times> ServerConn" where
  "Quit E c =
     (case Cmd_conn E ''QUIT'' [] c of
        (err, c1) \<Rightarrow> (connCloseErr E (wire c1), emit ConnClose c1))"

subsection \<open>Scripted environments\<close>

text \<open>
  A server that answers from a script: the \<open>n\<close>-th reply read on the control connection is
  the \<open>n\<close>-th of \<open>replies\<close>, the \<open>n\<close>-th scan of a data socket yields the \<open>n\<close>-th of \<open>scans\<close>;
  when the script is over the connection is at its end. No write, dial, copy or close fails.
\<close>

fun isReadResponse :: "event \<Rightarrow> bool" where
  "isReadResponse (ReadResponse expectCode) = True"
| "isReadResponse e = False"

fun isDataScan :: "event \<Rightarrow> bool" where
  "isDataScan (DataScan sock) = True"
| "isDataScan e = False"

definition script_response ::
  "((int \<times> error) + (int \<times> string)) list \<Rightarrow> event list \<Rightarrow> (int \<times> error) + (int \<times> string)" where
  "script_response replies h =
     (let n = length (filter isReadResponse h)
      in if n < length replies then replies ! n else Inl (0, NetError ''EOF''))"

definition script_scanned ::
  "((string \<times> error option) list \<times> error option) list \<Rightarrow> event list
     \<Rightarrow> (string \<times> error option) list \<times> error option" where
  "script_scanned scans h =
     (let n = length (filter isDataScan h)
      in if n < length scans then scans ! n else ([], Some (NetError ''EOF'')))"

text \<open>A parser for listings of the form \<open>d name\<close> (a folder) and \<open>f name\<close> (a file).\<close>

definition script_parser :: "string \<Rightarrow> error + Entry" where
  "script_parser line =
     (if length line < 3 \<or> line ! 1 \<noteq> CHR '' '' then Inl (ErrorsNew ''Unsupported LIST line'')
      else if hd line = CHR ''d''
      then Inr \<lparr>Name = drop 2 line, Target = [], Type = EntryTypeFolder, Size = 0, Time = 0\<rparr>
      else if hd line = CHR ''f''
      then Inr \<lparr>Name = drop 2 line, Target = [], Type = EntryTypeFile, Size = 0, Time = 0\<rparr>
      else Inl (ErrorsNew ''Unsupported LIST line''))"

definition script_server ::
  "((int \<times> error) + (int \<times> string)) list
     \<Rightarrow> ((string \<times> error option) list \<times> error option) list \<Rightarrow> env" where
  "script_server replies scans =
     \<lparr>cmdErr = (\<lambda>h. None), response = script_response replies, dialErr = (\<lambda>h. None),
      closeErr = (\<lambda>h. None), copyErr = (\<lambda>h. None), connCloseErr = (\<lambda>h. None),
      scanned = script_scanned scans, parseListLine = script_parser,
      parseRFC3659ListLine = script_parser\<rparr>"

text \<open>A session as \<open>Dial\<close> leaves it when the server lists no features.\<close>

definition session0 :: ServerConn where
  "session0 =
     \<lparr>options = \<lparr>tlsConfig = False, disableEPSV = False, dialFunc = False\<rparr>,
      wire = [], host = ''127.0.0.1'', features = Map.empty, skipEPSV = False,
      mlstSupported = False\<rparr>"

subsection \<open>Sessions\<close>

text \<open>
  The calls a program can make on a session, and a session as a sequence of calls. A call
  of \<open>RemoveDirRecur\<close> comes with the depth of recursion it may use; \<open>exec\<close> and \<open>run\<close>
  give \<open>None\<close> when that depth does not suffice. \<open>Read\<close> and \<open>SetDeadline\<close> of a
  \<open>Response\<close> act on the data socket alone and are left out.
\<close>

datatype call =
    CallLogin string string
  | CallNameList string
  | CallList string
  | CallChangeDir string
  | CallChangeDirToParent
  | CallCurrentDir
  | CallFileSize string
  | CallRetr string
  | CallRetrFrom string "64 word"
  | CallStor string
  | CallStorFrom string "64 word"
  | CallRename string string
  | CallDelete string
  | CallRemoveDirRecur nat string
  | CallMakeDir string
  | CallRemoveDir string
  | CallNoOp
  | CallLogout
  | CallQuit
  | CallClose Response

fun exec :: "env \<Rightarrow> call \<Rightarrow> ServerConn \<Rightarrow> ServerConn option" where
  "exec E (CallLogin user password) c = Some (snd (Login E user password c))"
| "exec E (CallNameList path) c = Some (snd (NameList E path c))"
| "exec E (CallList path) c = Some (snd (List E path c))"
| "exec E (CallChangeDir path) c = Some (snd (ChangeDir E path c))"
| "exec E CallChangeDirToParent c = Some (snd (ChangeDirToParent E c))"
| "exec E CallCurrentDir c = Some (snd (CurrentDir E c))"
| "exec E (CallFileSize path) c = Some (snd (FileSize E path c))"
| "exec E (CallRetr path) c = Some (snd (Retr E path c))"
| "exec E (CallRetrFrom path offset) c = Some (snd (RetrFrom E path offset c))"
| "exec E (CallStor path) c = Some (snd (Stor E path c))"
| "exec E (CallStorFrom path offset) c = Some (snd (StorFrom E path offset c))"
| "exec E (CallRename from to) c = Some (snd (Rename E from to c))"
| "exec E (CallDelete path) c = Some (snd (Delete E path c))"
| "exec E (CallRemoveDirRecur depth path) c = map_option snd (RemoveDirRecur depth E path c)"
| "exec E (CallMakeDir path) c = Some (snd (MakeDir E path c))"
| "exec E (CallRemoveDir path) c = Some (snd (RemoveDir E path c))"
| "exec E CallNoOp c = Some (snd (NoOp E c))"
| "exec E CallLogout c = Some (snd (Logout E c))"
| "exec E CallQuit c = Some (snd (Quit E c))"
| "exec E (CallClose r) c = Some (snd (snd (Close E r c)))"

fun run :: "env \<Rightarrow> call list \<Rightarrow> ServerConn \<Rightarrow> ServerConn option" where
  "run E [] c = Some c"
| "run E (x # xs) c = (case exec E x c of None \<Rightarrow> None | Some c1 \<Rightarrow> run E xs c1)"

subsection \<open>Predicates on what a session does\<close>

text \<open>The attempt at \<open>EPSV\<close> made when the log is \<open>h\<close> returns an error.\<close>

definition epsv_fails :: "env \<Rightarrow> event list \<Rightarrow> bool" where
  "epsv_fails E h \<longleftrightarrow> (\<exists>port err. fst (epsv E (session0\<lparr>wire := h\<rparr>)) = Return (port, Some err))"

text \<open>
  \<open>performs P E c c'\<close>: the session goes from \<open>c\<close> to \<open>c'\<close> by operations that satisfy \<open>P\<close>
  and by negotiations of a data connection (\<open>getDataConnPort\<close>).
\<close>

inductive performs :: "(event \<Rightarrow> bool) \<Rightarrow> env \<Rightarrow> ServerConn \<Rightarrow> ServerConn \<Rightarrow> bool"
  for P :: "event \<Rightarrow> bool" and E :: env where
  nothing: "performs P E c c"
| operation: "performs P E c c1 \<Longrightarrow> P e \<Longrightarrow> performs P E c (emit e c1)"
| negotiation: "performs P E c c1 \<Longrightarrow> performs P E c (snd (getDataConnPort E c1))"

text \<open>\<open>only A\<close>: every command written has its format in \<open>A\<close>.\<close>

definition only :: "string set \<Rightarrow> event \<Rightarrow> bool" where
  "only A e = (case e of Cmd f a \<Rightarrow> f \<in> A | _ \<Rightarrow> True)"

text \<open>
  \<open>sticky P E c c'\<close>: from \<open>c\<close> to \<open>c'\<close> the configuration is unchanged, the flag \<open>skipEPSV\<close>
  is not reset, the log grows by operations that satisfy \<open>P\<close> and by \<open>EPSV\<close> and \<open>PASV\<close>
  exchanges, with no \<open>EPSV\<close> at all when the flag is set or \<open>EPSV\<close> is disabled, and no
  \<open>EPSV\<close> after one that failed.
\<close>

definition sticky :: "(event \<Rightarrow> bool) \<Rightarrow> env \<Rightarrow> ServerConn \<Rightarrow> ServerConn \<Rightarrow> bool" where
  "sticky P E c c' \<longleftrightarrow>
     options c' = options c \<and> host c' = host c \<and> features c' = features c
     \<and> mlstSupported c' = mlstSupported c \<and> (skipEPSV c \<longrightarrow> skipEPSV c')
     \<and> (\<exists>evs. wire c' = wire c @ evs
           \<and> (\<forall>e\<in>set evs. P e \<or> e = Cmd ''PASV'' [] \<or> e = ReadResponse 227
                              \<or> e = Cmd ''EPSV'' [] \<or> e = ReadResponse 229)
           \<and> (skipEPSV c \<or> disableEPSV (options c) \<longrightarrow>
                (\<forall>e\<in>set evs. P e \<or> e = Cmd ''PASV'' [] \<or> e = ReadResponse 227))
           \<and> (\<forall>xs ys. evs = xs @ Cmd ''EPSV'' [] # ys \<and> epsv_fails E (wire c @ xs) \<longrightarrow>
                  skipEPSV c' \<and> Cmd ''EPSV'' [] \<notin> set ys))"

text \<open>The data sockets closed by a sequence of operations, in order.\<close>

fun closed_sockets :: "event list \<Rightarrow> nat list" where
  "closed_sockets [] = []"
| "closed_sockets (DataClose sock # es) = sock # closed_sockets es"
| "closed_sockets (e # es) = closed_sockets es"

subsection \<open>Depth-first removal\<close>




datatype attempt =
    TryChangeDir string
  | TryCurrentDir
  | TryList string
  | TryDelete string
  | TryChangeDirToParent
  | TryRemoveDir string

fun fails ::
  "env \<Rightarrow> attempt \<Rightarrow> ServerConn \<Rightarrow> (int \<times> error option) outcome \<Rightarrow> ServerConn \<Rightarrow> bool" where
  "fails E (TryChangeDir path) c r c' \<longleftrightarrow>
     (\<exists>err. ChangeDir E path c = (Some err, c') \<and> r = Return (0, Some err))"
| "fails E TryCurrentDir c r c' \<longleftrightarrow>
     (\<exists>dir err. CurrentDir E c = (Return (dir, Some err), c') \<and> r = Return (0, Some err))
     \<or> (\<exists>p. CurrentDir E c = (Panic p, c') \<and> r = Panic p)"
| "fails E (TryList dir) c r c' \<longleftrightarrow>
     (\<exists>entries err. List E dir c = (Return (entries, Some err), c') \<and> r = Return (0, Some err))
     \<or> (\<exists>p. List E dir c = (Panic p, c') \<and> r = Panic p)"
| "fails E (TryDelete name) c r c' \<longleftrightarrow>
     (\<exists>code err. Delete E name c = ((code, Some err), c') \<and> r = Return (code, Some err))"
| "fails E TryChangeDirToParent c r c' \<longleftrightarrow>
     (\<exists>err. ChangeDirToParent E c = (Some err, c') \<and> r = Return (0, Some err))"
| "fails E (TryRemoveDir dir) c r c' \<longleftrightarrow>
     (\<exists>code err. RemoveDir E dir c = ((code, Some err), c') \<and> r = Return (code, Some err))"



definition succeeded :: "(int \<times> error option) outcome \<Rightarrow> bool" where
  "succeeded r \<longleftrightarrow> (\<exists>code. r = Return (code, None))"





section \<open>Properties\<close>

lemmas Status_defs =
  StatusReady_def StatusUserOK_def StatusLoggedIn_def StatusCommandOK_def StatusSystem_def
  StatusBadArguments_def StatusCommandNotImplemented_def StatusPassiveMode_def
  StatusExtendedPassiveMode_def StatusPathCreated_def StatusRequestedFileActionOK_def
  StatusRequestFilePending_def StatusAlreadyOpen_def StatusAboutToSend_def
  StatusClosingDataConnection_def StatusFile_def StatusNotImplemented_def

lemmas script_defs =
  script_server_def script_response_def script_scanned_def session0_def

lemmas io_defs =
  emit_def Cmd_conn_def Close_data_def ReadResponse_conn_def expect_def cmd_def quot_def

subsection \<open>The wire\<close>

lemma wire_emit [simp]: "wire (emit e c) = wire c @ [e]"
  by (simp add: emit_def)

lemma fields_emit [simp]:
  "options (emit e c) = options c" "host (emit e c) = host c" "features (emit e c) = features c"
  "skipEPSV (emit e c) = skipEPSV c" "mlstSupported (emit e c) = mlstSupported c"
  by (simp_all add: emit_def)

lemma expect_Inl: "expect x (Inl (code, err)) = (code, [], Some err)"
  by (simp add: expect_def)

lemma expect_any: "expect (- 1) (Inr (code, msg)) = (code, msg, None)"
  by (simp add: expect_def)

lemma expect_code:
  "100 \<le> x \<Longrightarrow> x < 1000 \<Longrightarrow>
   expect x (Inr (code, msg)) = (code, msg, if code = x then None else Some (TextprotoError code msg))"
  by (simp add: expect_def)

lemma cmd_eq:
  "cmd E x f a c =
     (if cmdErr E (wire c) = None
      then (expect x (response E (wire c @ [Cmd f a])), emit (ReadResponse x) (emit (Cmd f a) c))
      else ((0, [], cmdErr E (wire c)), emit (Cmd f a) c))"
  by (auto simp: cmd_def Cmd_conn_def ReadResponse_conn_def split: option.splits)

lemma snd_cmd:
  "snd (cmd E x f a c) =
     (if cmdErr E (wire c) = None then emit (ReadResponse x) (emit (Cmd f a) c)
      else emit (Cmd f a) c)"
  by (simp add: cmd_eq)

lemma performs_trans: "performs P E c1 c2 \<Longrightarrow> performs P E c c1 \<Longrightarrow> performs P E c c2"
  by (induction rule: performs.induct) (auto intro: performs.intros)

lemma performs_mono: "performs P E c c1 \<Longrightarrow> (\<And>e. P e \<Longrightarrow> Q e) \<Longrightarrow> performs Q E c c1"
  by (induction rule: performs.induct) (auto intro: performs.intros)

lemma performs_emit: "P e \<Longrightarrow> performs P E c (emit e c)"
  by (rule performs.operation [OF performs.nothing])

lemma performs_cmd:
  "P (Cmd f a) \<Longrightarrow> P (ReadResponse x) \<Longrightarrow> performs P E c (snd (cmd E x f a c))"
  by (simp add: snd_cmd performs.intros)

lemma performs_cmd':
  "cmd E x f a c = (r, c1) \<Longrightarrow> P (Cmd f a) \<Longrightarrow> P (ReadResponse x) \<Longrightarrow> performs P E c c1"
  using performs_cmd [of P f a x E c] by simp

lemma snd_epsv: "snd (epsv E c) = snd (cmd E StatusExtendedPassiveMode ''EPSV'' [] c)"
  by (simp add: epsv_def Let_def split: prod.splits option.splits outcome.splits)

lemma snd_pasv: "snd (pasv E c) = snd (cmd E StatusPassiveMode ''PASV'' [] c)"
  by (simp add: pasv_def Let_def split: prod.splits option.splits outcome.splits)

lemma fst_cmd_wire: "wire c = wire d \<Longrightarrow> fst (cmd E x f a c) = fst (cmd E x f a d)"
  by (simp add: cmd_eq)

lemma fst_epsv_wire: "wire c = wire d \<Longrightarrow> fst (epsv E c) = fst (epsv E d)"
  using fst_cmd_wire [of c d E StatusExtendedPassiveMode "''EPSV''" "[]"]
  by (cases "cmd E StatusExtendedPassiveMode ''EPSV'' [] c";
      cases "cmd E StatusExtendedPassiveMode ''EPSV'' [] d")
     (simp add: epsv_def Let_def split: prod.splits option.splits outcome.splits)

lemma epsv_fails_iff:
  "epsv_fails E (wire c) \<longleftrightarrow> (\<exists>port err. fst (epsv E c) = Return (port, Some err))"
  unfolding epsv_fails_def using fst_epsv_wire [of "session0\<lparr>wire := wire c\<rparr>" c E] by simp

subsection \<open>What a session performs\<close>

lemma sticky_refl: "sticky P E c c"
  by (simp add: sticky_def)

lemma sticky_emit:
  assumes "P e" and "\<not> P (Cmd ''EPSV'' [])"
  shows "sticky P E c (emit e c)"
proof -
  have "e \<noteq> Cmd ''EPSV'' []" using assms by auto
  then have "\<forall>xs ys. [e] = xs @ Cmd ''EPSV'' [] # ys \<longrightarrow> False"
    by (auto simp: Cons_eq_append_conv)
  then show ?thesis using assms(1) by (auto simp: sticky_def)
qed

lemma sticky_trans:
  assumes 1: "sticky P E c c1" and 2: "sticky P E c1 c2" and n: "\<not> P (Cmd ''EPSV'' [])"
  shows "sticky P E c c2"
proof -
  from 1 obtain e1 where e1: "wire c1 = wire c @ e1"
    "\<forall>e\<in>set e1. P e \<or> e = Cmd ''PASV'' [] \<or> e = ReadResponse 227
                              \<or> e = Cmd ''EPSV'' [] \<or> e = ReadResponse 229"
    "skipEPSV c \<or> disableEPSV (options c) \<longrightarrow>
                (\<forall>e\<in>set e1. P e \<or> e = Cmd ''PASV'' [] \<or> e = ReadResponse 227)"
    "\<forall>xs ys. e1 = xs @ Cmd ''EPSV'' [] # ys \<and> epsv_fails E (wire c @ xs) \<longrightarrow>
                  skipEPSV c1 \<and> Cmd ''EPSV'' [] \<notin> set ys"
    unfolding sticky_def by blast
  from 2 obtain e2 where e2: "wire c2 = wire c1 @ e2"
    "\<forall>e\<in>set e2. P e \<or> e = Cmd ''PASV'' [] \<or> e = ReadResponse 227
                              \<or> e = Cmd ''EPSV'' [] \<or> e = ReadResponse 229"
    "skipEPSV c1 \<or> disableEPSV (options c1) \<longrightarrow>
                (\<forall>e\<in>set e2. P e \<or> e = Cmd ''PASV'' [] \<or> e = ReadResponse 227)"
    "\<forall>xs ys. e2 = xs @ Cmd ''EPSV'' [] # ys \<and> epsv_fails E (wire c1 @ xs) \<longrightarrow>
                  skipEPSV c2 \<and> Cmd ''EPSV'' [] \<notin> set ys"
    unfolding sticky_def by blast
  from 1 2 have f: "options c2 = options c" "host c2 = host c" "features c2 = features c"
    "mlstSupported c2 = mlstSupported c" "skipEPSV c \<longrightarrow> skipEPSV c2"
    "options c1 = options c" "skipEPSV c \<longrightarrow> skipEPSV c1" "skipEPSV c1 \<longrightarrow> skipEPSV c2"
    unfolding sticky_def by auto
  have w: "wire c2 = wire c @ (e1 @ e2)" using e1(1) e2(1) by simp
  have a: "\<forall>e\<in>set (e1 @ e2). P e \<or> e = Cmd ''PASV'' [] \<or> e = ReadResponse 227
                              \<or> e = Cmd ''EPSV'' [] \<or> e = ReadResponse 229"
    using e1(2) e2(2) by auto
  have b: "skipEPSV c \<or> disableEPSV (options c) \<longrightarrow>
                (\<forall>e\<in>set (e1 @ e2). P e \<or> e = Cmd ''PASV'' [] \<or> e = ReadResponse 227)"
    using e1(3) e2(3) f by auto
  have noE: "skipEPSV c1 \<Longrightarrow> Cmd ''EPSV'' [] \<notin> set e2"
    using e2(3) n by auto
  have c: "\<forall>xs ys. e1 @ e2 = xs @ Cmd ''EPSV'' [] # ys \<and> epsv_fails E (wire c @ xs) \<longrightarrow>
                  skipEPSV c2 \<and> Cmd ''EPSV'' [] \<notin> set ys"
  proof (intro allI impI, elim conjE)
    fix xs ys
    assume eq: "e1 @ e2 = xs @ Cmd ''EPSV'' [] # ys" and fl: "epsv_fails E (wire c @ xs)"
    from eq obtain us where
      "(e1 = xs @ us \<and> us @ e2 = Cmd ''EPSV'' [] # ys) \<or> (e1 @ us = xs \<and> e2 = us @ Cmd ''EPSV'' [] # ys)"
      by (auto simp: append_eq_append_conv2)
    then show "skipEPSV c2 \<and> Cmd ''EPSV'' [] \<notin> set ys"
    proof
      assume h: "e1 = xs @ us \<and> us @ e2 = Cmd ''EPSV'' [] # ys"
      show ?thesis
      proof (cases us)
        case Nil
        with h have "e2 = [] @ Cmd ''EPSV'' [] # ys" "wire c1 @ [] = wire c @ xs"
          using e1(1) by auto
        with e2(4) fl show ?thesis by metis
      next
        case (Cons u us')
        with h have "e1 = xs @ Cmd ''EPSV'' [] # us'" "ys = us' @ e2" by auto
        with e1(4) fl have "skipEPSV c1 \<and> Cmd ''EPSV'' [] \<notin> set us'" by blast
        with noE f(8) \<open>ys = us' @ e2\<close> show ?thesis by auto
      qed
    next
      assume h: "e1 @ us = xs \<and> e2 = us @ Cmd ''EPSV'' [] # ys"
      then have "wire c1 @ us = wire c @ xs" using e1(1) by auto
      with e2(4) fl h show ?thesis by metis
    qed
  qed
  show ?thesis unfolding sticky_def using f w a b c by blast
qed

lemma sticky_cmd:
  assumes "P (Cmd f a)" "P (ReadResponse x)" "\<not> P (Cmd ''EPSV'' [])"
  shows "sticky P E c (snd (cmd E x f a c))"
  using assms by (auto simp: snd_cmd intro!: sticky_emit intro: sticky_trans)

lemma cmd_effect:
  "\<exists>tl. snd (cmd E x f a c) = c\<lparr>wire := wire c @ Cmd f a # tl\<rparr> \<and> (tl = [] \<or> tl = [ReadResponse x])"
proof (cases "cmdErr E (wire c)")
  case None
  then show ?thesis by (intro exI [of _ "[ReadResponse x]"]) (simp add: snd_cmd emit_def)
next
  case (Some err)
  then show ?thesis by (intro exI [of _ "[]"]) (simp add: snd_cmd emit_def)
qed

lemma sticky_pasv: "sticky P E c (snd (cmd E StatusPassiveMode ''PASV'' [] c))"
proof -
  have "\<forall>xs ys. [Cmd ''PASV'' []] \<noteq> xs @ Cmd ''EPSV'' [] # ys"
    "\<forall>xs ys. [Cmd ''PASV'' [], ReadResponse 227] \<noteq> xs @ Cmd ''EPSV'' [] # ys"
    by (auto simp: Cons_eq_append_conv)
  then show ?thesis
    by (auto simp: snd_cmd sticky_def Status_defs)
qed

lemma sticky_negotiation: "sticky P E c (snd (getDataConnPort E c))"
proof (cases "\<not> disableEPSV (options c) \<and> \<not> skipEPSV c")
  case False
  then have "snd (getDataConnPort E c) = snd (cmd E StatusPassiveMode ''PASV'' [] c)"
    by (auto simp: getDataConnPort_def snd_pasv)
  then show ?thesis by (simp add: sticky_pasv)
next
  case True
  define c1 where "c1 = snd (cmd E StatusExtendedPassiveMode ''EPSV'' [] c)"
  obtain r where r: "epsv E c = (r, c1)"
    using snd_epsv [of E c] by (cases "epsv E c") (simp add: c1_def)
  obtain tl1 where t1: "c1 = c\<lparr>wire := wire c @ Cmd ''EPSV'' [] # tl1\<rparr>"
    and t1': "tl1 = [] \<or> tl1 = [ReadResponse 229]"
    using cmd_effect [of E StatusExtendedPassiveMode "''EPSV''" "[]" c]
    unfolding c1_def StatusExtendedPassiveMode_def by blast
  have w1: "wire c1 = wire c @ Cmd ''EPSV'' [] # tl1" "tl1 = [] \<or> tl1 = [ReadResponse 229]"
    "options c1 = options c" "host c1 = host c" "features c1 = features c"
    "mlstSupported c1 = mlstSupported c" "skipEPSV c1 = skipEPSV c"
    using t1 t1' by simp_all
  have split1: "\<And>xs ys tl. Cmd ''EPSV'' [] # tl = xs @ Cmd ''EPSV'' [] # ys
       \<Longrightarrow> Cmd ''EPSV'' [] \<notin> set tl \<Longrightarrow> xs = [] \<and> ys = tl"
    by (auto simp: Cons_eq_append_conv)
  show ?thesis
  proof (cases "\<exists>port err. r = Return (port, Some err)")
    case False
    then have s: "snd (getDataConnPort E c) = c1"
      using True r by (auto simp: getDataConnPort_def split: outcome.splits option.splits)
    have nf: "\<not> epsv_fails E (wire c)"
      using False r by (auto simp: epsv_fails_iff)
    have "\<forall>xs ys. Cmd ''EPSV'' [] # tl1 = xs @ Cmd ''EPSV'' [] # ys \<longrightarrow> xs = []"
      using split1 w1(2) by auto
    with nf show ?thesis
      unfolding s sticky_def using w1 True by auto
  next
    case fails: True
    define c2 where "c2 = snd (cmd E StatusPassiveMode ''PASV'' [] (c1\<lparr>skipEPSV := True\<rparr>))"
    from fails have s: "snd (getDataConnPort E c) = c2"
      using True r by (auto simp: getDataConnPort_def snd_pasv c2_def)
    obtain tl2 where t2: "c2 = c1\<lparr>skipEPSV := True, wire := wire c1 @ Cmd ''PASV'' [] # tl2\<rparr>"
      and t2': "tl2 = [] \<or> tl2 = [ReadResponse 227]"
      using cmd_effect [of E StatusPassiveMode "''PASV''" "[]" "c1\<lparr>skipEPSV := True\<rparr>"]
      unfolding c2_def StatusPassiveMode_def by auto
    have w2: "wire c2 = wire c1 @ Cmd ''PASV'' [] # tl2" "tl2 = [] \<or> tl2 = [ReadResponse 227]"
      "options c2 = options c" "host c2 = host c" "features c2 = features c"
      "mlstSupported c2 = mlstSupported c" "skipEPSV c2"
      using t2 t2' w1 by simp_all
    have w: "wire c2 = wire c @ Cmd ''EPSV'' [] # (tl1 @ Cmd ''PASV'' [] # tl2)"
      using w1(1) w2(1) by simp
    have "\<forall>xs ys. Cmd ''EPSV'' [] # (tl1 @ Cmd ''PASV'' [] # tl2) = xs @ Cmd ''EPSV'' [] # ys
        \<longrightarrow> Cmd ''EPSV'' [] \<notin> set ys"
    proof (intro allI impI)
      fix xs ys
      assume eq: "Cmd ''EPSV'' [] # (tl1 @ Cmd ''PASV'' [] # tl2) = xs @ Cmd ''EPSV'' [] # ys"
      have "Cmd ''EPSV'' [] \<notin> set (tl1 @ Cmd ''PASV'' [] # tl2)"
        using w1(2) w2(2) by auto
      with split1 [OF eq] show "Cmd ''EPSV'' [] \<notin> set ys" by simp
    qed
    then show ?thesis
      unfolding s sticky_def using w w1(2) w2 True by auto
  qed
qed

lemma performs_sticky:
  assumes "performs P E c c'" and "\<not> P (Cmd ''EPSV'' [])"
  shows "sticky P E c c'"
  using assms
proof (induction rule: performs.induct)
  case (nothing c)
  show ?case by (rule sticky_refl)
next
  case (operation c c1 e)
  then show ?case using sticky_trans sticky_emit by blast
next
  case (negotiation c c1)
  then show ?case using sticky_trans sticky_negotiation by blast
qed

lemma only_simps [simp]:
  "only A (Cmd f a) \<longleftrightarrow> f \<in> A" "only A (ReadResponse x)" "only A ConnClose"
  "only A (Dial d h p)" "only A (DataClose k)" "only A (DataCopy k)" "only A (DataScan k)"
  by (simp_all add: only_def)

lemma p_emit: "performs P E c0 c \<Longrightarrow> P e \<Longrightarrow> performs P E c0 (emit e c)"
  by (rule performs.operation)

lemma p_cmd:
  "cmd E x f a c = (r, c') \<Longrightarrow> performs (only A) E c0 c \<Longrightarrow> f \<in> A
     \<Longrightarrow> performs (only A) E c0 c'"
  using performs_trans [OF performs_cmd [of "only A" f a x E c], of c0] by simp

lemma p_Cmd_conn:
  "Cmd_conn E f a c = (r, c') \<Longrightarrow> performs (only A) E c0 c \<Longrightarrow> f \<in> A
     \<Longrightarrow> performs (only A) E c0 c'"
  by (auto simp: Cmd_conn_def intro: p_emit)

lemma p_ReadResponse:
  "ReadResponse_conn E x c = (r, c') \<Longrightarrow> performs (only A) E c0 c \<Longrightarrow> performs (only A) E c0 c'"
  by (auto simp: ReadResponse_conn_def intro: p_emit)

lemma p_Close_data:
  "performs (only A) E c0 c \<Longrightarrow> performs (only A) E c0 (snd (Close_data E k c))"
  by (auto simp: Close_data_def intro: p_emit)

lemma p_getDataConnPort:
  "getDataConnPort E c = (r, c') \<Longrightarrow> performs P E c0 c \<Longrightarrow> performs P E c0 c'"
  using performs.negotiation [of P E c0 c] by simp

lemma p_openDataConn:
  "openDataConn E c = (r, c') \<Longrightarrow> performs (only A) E c0 c \<Longrightarrow> performs (only A) E c0 c'"
  by (auto simp: openDataConn_def Let_def
           split: prod.splits outcome.splits option.splits
           intro!: p_emit intro: p_getDataConnPort)

lemma p_transfer:
  "cmdDataConnFrom_transfer E k f a c = (r, c') \<Longrightarrow> performs (only A) E c0 c \<Longrightarrow> f \<in> A
     \<Longrightarrow> performs (only A) E c0 c'"
  by (auto simp: cmdDataConnFrom_transfer_def
           split: prod.splits option.splits if_splits
           intro!: p_Close_data intro: p_Cmd_conn p_ReadResponse)

lemma p_cmdDataConnFrom:
  "cmdDataConnFrom E off f a c = (r, c') \<Longrightarrow> performs (only A) E c0 c \<Longrightarrow> f \<in> A
     \<Longrightarrow> off \<noteq> 0 \<longrightarrow> ''REST %d'' \<in> A
     \<Longrightarrow> performs (only A) E c0 c'"
  apply (auto simp: cmdDataConnFrom_def
           split: prod.splits outcome.splits sum.splits option.splits if_splits
           intro!: p_Close_data intro: p_openDataConn p_transfer p_cmd)
  apply (blast intro: p_openDataConn p_transfer p_cmd)
  done

lemma p_Close:
  "Close E r c = (err, r', c') \<Longrightarrow> performs (only A) E c0 c \<Longrightarrow> performs (only A) E c0 c'"
  by (auto simp: Close_def Close_data_def ReadResponse_conn_def
           split: if_splits prod.splits intro!: p_emit)

lemma p_Close_snd:
  "performs (only A) E c0 c \<Longrightarrow> performs (only A) E c0 (snd (snd (Close E r c)))"
  using p_Close [of E r c "fst (Close E r c)" "fst (snd (Close E r c))" "snd (snd (Close E r c))"]
  by simp

lemma p_NameList:
  "NameList E path c = (r, c') \<Longrightarrow> performs (only A) E c0 c \<Longrightarrow> ''NLST %s'' \<in> A
     \<Longrightarrow> performs (only A) E c0 c'"
  by (auto simp: NameList_def Let_def
           split: prod.splits outcome.splits sum.splits
           intro!: p_Close_snd p_emit intro: p_cmdDataConnFrom)

lemma p_List:
  "List E path c = (r, c') \<Longrightarrow> performs (only A) E c0 c \<Longrightarrow> ''%s %s'' \<in> A
     \<Longrightarrow> performs (only A) E c0 c'"
  by (auto simp: List_def Let_def
           split: prod.splits outcome.splits sum.splits
           intro!: p_Close_snd p_emit intro: p_cmdDataConnFrom)

lemma p_RetrFrom:
  "RetrFrom E path off c = (r, c') \<Longrightarrow> performs (only A) E c0 c \<Longrightarrow> ''RETR %s'' \<in> A
     \<Longrightarrow> ''REST %d'' \<in> A \<Longrightarrow> performs (only A) E c0 c'"
  by (auto simp: RetrFrom_def
           split: prod.splits outcome.splits sum.splits
           intro: p_cmdDataConnFrom)

lemma p_StorFrom:
  "StorFrom E path off c = (r, c') \<Longrightarrow> performs (only A) E c0 c \<Longrightarrow> ''STOR %s'' \<in> A
     \<Longrightarrow> ''REST %d'' \<in> A \<Longrightarrow> performs (only A) E c0 c'"
  by (auto simp: StorFrom_def Let_def
           split: prod.splits outcome.splits sum.splits option.splits
           intro!: p_Close_data p_emit intro: p_cmdDataConnFrom p_ReadResponse)

lemma p_ChangeDir:
  "ChangeDir E path c = (r, c') \<Longrightarrow> performs (only A) E c0 c \<Longrightarrow> ''CWD %s'' \<in> A
     \<Longrightarrow> performs (only A) E c0 c'"
  by (auto simp: ChangeDir_def split: prod.splits intro: p_cmd)

lemma p_ChangeDirToParent:
  "ChangeDirToParent E c = (r, c') \<Longrightarrow> performs (only A) E c0 c \<Longrightarrow> ''CDUP'' \<in> A
     \<Longrightarrow> performs (only A) E c0 c'"
  by (auto simp: ChangeDirToParent_def split: prod.splits intro: p_cmd)

lemma p_CurrentDir:
  "CurrentDir E c = (r, c') \<Longrightarrow> performs (only A) E c0 c \<Longrightarrow> ''PWD'' \<in> A
     \<Longrightarrow> performs (only A) E c0 c'"
  by (auto simp: CurrentDir_def Let_def split: prod.splits option.splits outcome.splits if_splits
           intro: p_cmd)

lemma p_FileSize:
  "FileSize E path c = (r, c') \<Longrightarrow> performs (only A) E c0 c \<Longrightarrow> ''SIZE %s'' \<in> A
     \<Longrightarrow> performs (only A) E c0 c'"
  by (auto simp: FileSize_def split: prod.splits option.splits intro: p_cmd)

lemma p_Rename:
  "Rename E from to c = (r, c') \<Longrightarrow> performs (only A) E c0 c \<Longrightarrow> ''RNFR %s'' \<in> A
     \<Longrightarrow> ''RNTO %s'' \<in> A \<Longrightarrow> performs (only A) E c0 c'"
  by (auto simp: Rename_def split: prod.splits option.splits intro: p_cmd)

lemma p_Delete:
  "Delete E path c = (r, c') \<Longrightarrow> performs (only A) E c0 c \<Longrightarrow> ''DELE %s'' \<in> A
     \<Longrightarrow> performs (only A) E c0 c'"
  by (auto simp: Delete_def split: prod.splits intro: p_cmd)

lemma p_MakeDir:
  "MakeDir E path c = (r, c') \<Longrightarrow> performs (only A) E c0 c \<Longrightarrow> ''MKD %s'' \<in> A
     \<Longrightarrow> performs (only A) E c0 c'"
  by (auto simp: MakeDir_def split: prod.splits intro: p_cmd)

lemma p_RemoveDir:
  "RemoveDir E path c = (r, c') \<Longrightarrow> performs (only A) E c0 c \<Longrightarrow> ''RMD %s'' \<in> A
     \<Longrightarrow> performs (only A) E c0 c'"
  by (auto simp: RemoveDir_def split: prod.splits intro: p_cmd)

lemma p_NoOp:
  "NoOp E c = (r, c') \<Longrightarrow> performs (only A) E c0 c \<Longrightarrow> ''NOOP'' \<in> A
     \<Longrightarrow> performs (only A) E c0 c'"
  by (auto simp: NoOp_def split: prod.splits intro: p_cmd)

lemma p_Logout:
  "Logout E c = (r, c') \<Longrightarrow> performs (only A) E c0 c \<Longrightarrow> ''REIN'' \<in> A
     \<Longrightarrow> performs (only A) E c0 c'"
  by (auto simp: Logout_def split: prod.splits intro: p_cmd)

lemma p_Quit:
  "Quit E c = (r, c') \<Longrightarrow> performs (only A) E c0 c \<Longrightarrow> ''QUIT'' \<in> A
     \<Longrightarrow> performs (only A) E c0 c'"
  by (auto simp: Quit_def Cmd_conn_def split: prod.splits intro!: p_emit)

lemma p_setUTF8:
  "setUTF8 E c = (r, c') \<Longrightarrow> performs (only A) E c0 c \<Longrightarrow> ''OPTS UTF8 ON'' \<in> A
     \<Longrightarrow> performs (only A) E c0 c'"
  by (auto simp: setUTF8_def split: prod.splits option.splits if_splits intro: p_cmd)

lemma p_cmd_snd:
  "performs (only A) E c0 c \<Longrightarrow> f \<in> A \<Longrightarrow> performs (only A) E c0 (snd (cmd E x f a c))"
  using p_cmd [of E x f a c "fst (cmd E x f a c)" "snd (cmd E x f a c)"] by simp

lemma p_Login_modes:
  "Login_modes E c = (r, c') \<Longrightarrow> performs (only A) E c0 c
     \<Longrightarrow> {''TYPE I'', ''OPTS UTF8 ON'', ''PBSZ 0'', ''PROT P''} \<subseteq> A
     \<Longrightarrow> performs (only A) E c0 c'"
  by (auto simp: Login_modes_def split: prod.splits option.splits if_splits
           intro!: p_cmd_snd intro: p_cmd p_setUTF8)

lemma p_Login:
  "Login E user password c = (r, c') \<Longrightarrow> performs (only A) E c0 c
     \<Longrightarrow> {''USER %s'', ''PASS %s'', ''TYPE I'', ''OPTS UTF8 ON'', ''PBSZ 0'', ''PROT P''} \<subseteq> A
     \<Longrightarrow> performs (only A) E c0 c'"
  apply (auto simp: Login_def split: prod.splits option.splits if_splits
           intro: p_cmd p_Login_modes)
   apply (blast intro: p_cmd p_Login_modes)+
  done

lemma p_loop:
  assumes recur: "\<And>path c r c' c0. recur path c = Some (r, c') \<Longrightarrow> performs (only A) E c0 c
                    \<Longrightarrow> performs (only A) E c0 c'"
    and A: "''DELE %s'' \<in> A"
  shows "RemoveDirRecur_loop recur E cur entries code c = Some (r, c')
     \<Longrightarrow> performs (only A) E c0 c \<Longrightarrow> performs (only A) E c0 c'"
proof (induction entries arbitrary: code c)
  case Nil
  then show ?case by simp
next
  case (Cons entry rest)
  show ?case
  proof (cases "Name entry \<noteq> ''..'' \<and> Name entry \<noteq> ''.''")
    case False
    with Cons.prems have "RemoveDirRecur_loop recur E cur rest code c = Some (r, c')" by auto
    with Cons.IH Cons.prems(2) show ?thesis by blast
  next
    case named: True
    show ?thesis
    proof (cases "Type entry = EntryTypeFolder")
      case True
      with named Cons.prems(1) obtain r1 c1 where
        1: "recur (cur @ ''/'' @ Name entry) c = Some (r1, c1)"
        by (cases "recur (cur @ ''/'' @ Name entry) c") auto
      have p1: "performs (only A) E c0 c1" using recur [OF 1 Cons.prems(2)] .
      show ?thesis
      proof (cases "\<exists>code1. r1 = Return (code1, None)")
        case True
        then obtain code1 where "r1 = Return (code1, None)" by blast
        with named \<open>Type entry = EntryTypeFolder\<close> Cons.prems(1) 1
        have "RemoveDirRecur_loop recur E cur rest code1 c1 = Some (r, c')" by simp
        with Cons.IH p1 show ?thesis by blast
      next
        case False
        with named \<open>Type entry = EntryTypeFolder\<close> Cons.prems(1) 1 have "c' = c1"
          by (auto split: outcome.splits option.splits)
        with p1 show ?thesis by simp
      qed
    next
      case False
      obtain code1 err1 c1 where 1: "Delete E (Name entry) c = ((code1, err1), c1)"
        by (cases "Delete E (Name entry) c") auto
      have p1: "performs (only A) E c0 c1" using p_Delete [OF 1 Cons.prems(2) A] .
      show ?thesis
      proof (cases err1)
        case None
        with named False Cons.prems(1) 1
        have "RemoveDirRecur_loop recur E cur rest code1 c1 = Some (r, c')" by simp
        with Cons.IH p1 show ?thesis by blast
      next
        case (Some e)
        with named False Cons.prems(1) 1 have "c' = c1" by simp
        with p1 show ?thesis by simp
      qed
    qed
  qed
qed

lemma p_RemoveDirRecur:
  assumes A: "{''CWD %s'', ''PWD'', ''%s %s'', ''DELE %s'', ''CDUP'', ''RMD %s''} \<subseteq> A"
  shows "RemoveDirRecur depth E path c = Some (r, c') \<Longrightarrow> performs (only A) E c0 c
     \<Longrightarrow> performs (only A) E c0 c'"
proof (induction depth arbitrary: path c r c' c0)
  case 0
  then show ?case by simp
next
  case (Suc depth)
  note run = Suc.prems(1) and p0 = Suc.prems(2)
  obtain e1 c1 where 1: "ChangeDir E path c = (e1, c1)" by (cases "ChangeDir E path c") auto
  have p1: "performs (only A) E c0 c1" using p_ChangeDir [OF 1 p0] A by simp
  show ?case
  proof (cases e1)
    case (Some err)
    with run 1 have "c' = c1" by simp
    with p1 show ?thesis by simp
  next
    case None
    obtain r2 c2 where 2: "CurrentDir E c1 = (r2, c2)" by (cases "CurrentDir E c1") auto
    have p2: "performs (only A) E c0 c2" using p_CurrentDir [OF 2 p1] A by simp
    show ?thesis
    proof (cases "\<exists>cur. r2 = Return (cur, None)")
      case False
      with run 1 None 2 have "c' = c2" by (auto split: outcome.splits option.splits)
      with p2 show ?thesis by simp
    next
      case True
      then obtain cur where r2: "r2 = Return (cur, None)" by blast
      obtain r3 c3 where 3: "List E cur c2 = (r3, c3)" by (cases "List E cur c2") auto
      have p3: "performs (only A) E c0 c3" using p_List [OF 3 p2] A by simp
      show ?thesis
      proof (cases "\<exists>entries. r3 = Return (entries, None)")
        case False
        with run 1 None 2 r2 3 have "c' = c3" by (auto split: outcome.splits option.splits)
        with p3 show ?thesis by simp
      next
        case True
        then obtain entries where r3: "r3 = Return (entries, None)" by blast
        from run 1 None 2 r2 3 r3 obtain r4 c4 where
          4: "RemoveDirRecur_loop (RemoveDirRecur depth E) E cur entries 0 c3 = Some (r4, c4)"
          by (cases "RemoveDirRecur_loop (RemoveDirRecur depth E) E cur entries 0 c3") auto
        have p4: "performs (only A) E c0 c4"
          using p_loop [where recur = "RemoveDirRecur depth E", OF _ _ 4 p3] Suc.IH A by blast
        show ?thesis
        proof (cases "\<exists>code. r4 = Return (code, None)")
          case False
          with run 1 None 2 r2 3 r3 4 have "c' = c4" by (auto split: outcome.splits option.splits)
          with p4 show ?thesis by simp
        next
          case True
          then obtain code where r4: "r4 = Return (code, None)" by blast
          obtain e5 c5 where 5: "ChangeDirToParent E c4 = (e5, c5)"
            by (cases "ChangeDirToParent E c4") auto
          have p5: "performs (only A) E c0 c5" using p_ChangeDirToParent [OF 5 p4] A by simp
          show ?thesis
          proof (cases e5)
            case (Some err)
            with run 1 None 2 r2 3 r3 4 r4 5 have "c' = c5" by simp
            with p5 show ?thesis by simp
          next
            case n5: None
            obtain r6 c6 where 6: "RemoveDir E cur c5 = (r6, c6)" by (cases "RemoveDir E cur c5") auto
            have p6: "performs (only A) E c0 c6" using p_RemoveDir [OF 6 p5] A by simp
            from run 1 None 2 r2 3 r3 4 r4 5 n5 6 have "c' = c6" by (auto split: prod.splits)
            with p6 show ?thesis by simp
          qed
        qed
      qed
    qed
  qed
qed

lemma p_exec:
  assumes "exec E x c = Some c'" and p: "performs (only (- {''EPSV''})) E c0 c"
  shows "performs (only (- {''EPSV''})) E c0 c'"
proof (cases x)
  case (CallLogin user password)
  with assms(1) have "Login E user password c = (fst (Login E user password c), c')" by auto
  from p_Login [OF this p] show ?thesis by simp
next
  case (CallNameList path)
  with assms(1) have "NameList E path c = (fst (NameList E path c), c')" by auto
  from p_NameList [OF this p] show ?thesis by simp
next
  case (CallList path)
  with assms(1) have "List E path c = (fst (List E path c), c')" by auto
  from p_List [OF this p] show ?thesis by simp
next
  case (CallChangeDir path)
  with assms(1) have "ChangeDir E path c = (fst (ChangeDir E path c), c')" by auto
  from p_ChangeDir [OF this p] show ?thesis by simp
next
  case CallChangeDirToParent
  with assms(1) have "ChangeDirToParent E c = (fst (ChangeDirToParent E c), c')" by auto
  from p_ChangeDirToParent [OF this p] show ?thesis by simp
next
  case CallCurrentDir
  with assms(1) have "CurrentDir E c = (fst (CurrentDir E c), c')" by auto
  from p_CurrentDir [OF this p] show ?thesis by simp
next
  case (CallFileSize path)
  with assms(1) have "FileSize E path c = (fst (FileSize E path c), c')" by auto
  from p_FileSize [OF this p] show ?thesis by simp
next
  case (CallRetr path)
  with assms(1) have "RetrFrom E path 0 c = (fst (RetrFrom E path 0 c), c')" by (auto simp: Retr_def)
  from p_RetrFrom [OF this p] show ?thesis by simp
next
  case (CallRetrFrom path offset)
  with assms(1) have "RetrFrom E path offset c = (fst (RetrFrom E path offset c), c')" by auto
  from p_RetrFrom [OF this p] show ?thesis by simp
next
  case (CallStor path)
  with assms(1) have "StorFrom E path 0 c = (fst (StorFrom E path 0 c), c')" by (auto simp: Stor_def)
  from p_StorFrom [OF this p] show ?thesis by simp
next
  case (CallStorFrom path offset)
  with assms(1) have "StorFrom E path offset c = (fst (StorFrom E path offset c), c')" by auto
  from p_StorFrom [OF this p] show ?thesis by simp
next
  case (CallRename src dst)
  with assms(1) have "Rename E src dst c = (fst (Rename E src dst c), c')" by auto
  from p_Rename [OF this p] show ?thesis by simp
next
  case (CallDelete path)
  with assms(1) have "Delete E path c = (fst (Delete E path c), c')" by auto
  from p_Delete [OF this p] show ?thesis by simp
next
  case (CallRemoveDirRecur depth path)
  with assms(1) obtain r where "RemoveDirRecur depth E path c = Some (r, c')" by auto
  from p_RemoveDirRecur [OF _ this p] show ?thesis by simp
next
  case (CallMakeDir path)
  with assms(1) have "MakeDir E path c = (fst (MakeDir E path c), c')" by auto
  from p_MakeDir [OF this p] show ?thesis by simp
next
  case (CallRemoveDir path)
  with assms(1) have "RemoveDir E path c = (fst (RemoveDir E path c), c')" by auto
  from p_RemoveDir [OF this p] show ?thesis by simp
next
  case CallNoOp
  with assms(1) have "NoOp E c = (fst (NoOp E c), c')" by auto
  from p_NoOp [OF this p] show ?thesis by simp
next
  case CallLogout
  with assms(1) have "Logout E c = (fst (Logout E c), c')" by auto
  from p_Logout [OF this p] show ?thesis by simp
next
  case CallQuit
  with assms(1) have "Quit E c = (fst (Quit E c), c')" by auto
  from p_Quit [OF this p] show ?thesis by simp
next
  case (CallClose r)
  with assms(1) have "c' = snd (snd (Close E r c))" by auto
  with p_Close_snd [OF p] show ?thesis by simp
qed

lemma p_run:
  "run E calls c = Some c' \<Longrightarrow> performs (only (- {''EPSV''})) E c0 c
     \<Longrightarrow> performs (only (- {''EPSV''})) E c0 c'"
proof (induction calls arbitrary: c)
  case Nil
  then show ?case by simp
next
  case (Cons x xs)
  from Cons.prems(1) obtain c1 where 1: "exec E x c = Some c1" and 2: "run E xs c1 = Some c'"
    by (cases "exec E x c") auto
  from Cons.IH [OF 2 p_exec [OF 1 Cons.prems(2)]] show ?case .
qed

lemma performs_events:
  assumes "performs P E c c'"
  shows "\<exists>evs. wire c' = wire c @ evs
           \<and> (\<forall>e\<in>set evs. P e \<or> e = Cmd ''PASV'' [] \<or> e = ReadResponse 227
                              \<or> e = Cmd ''EPSV'' [] \<or> e = ReadResponse 229)"
  using assms
proof (induction rule: performs.induct)
  case (nothing c)
  show ?case by simp
next
  case (operation c c1 e)
  then show ?case by auto
next
  case (negotiation c c1)
  from sticky_negotiation [of "\<lambda>e. False" E c1] obtain evs1 where
    "wire (snd (getDataConnPort E c1)) = wire c1 @ evs1"
    "\<forall>e\<in>set evs1. e = Cmd ''PASV'' [] \<or> e = ReadResponse 227
                              \<or> e = Cmd ''EPSV'' [] \<or> e = ReadResponse 229"
    unfolding sticky_def by auto
  with negotiation.IH show ?case by auto
qed

subsection \<open>The fallback from EPSV to PASV\<close>

text \<open>
  Attempts at \<open>EPSV\<close> that return an error. Over any sequence of calls on a session, from
  any state \<open>c\<close> to the state \<open>c'\<close> reached: the configuration is unchanged; the flag
  \<open>skipEPSV\<close>, once set, stays set; when the flag is set or \<open>EPSV\<close> is disabled by the
  configuration, no \<open>EPSV\<close> is written at all; and whenever an \<open>EPSV\<close> written during the
  calls returns an error, the flag is set in the end and no \<open>EPSV\<close> is written after that
  one. In a negotiation with the flag set or \<open>EPSV\<close> disabled, \<open>getDataConnPort\<close> is \<open>pasv\<close>;
  in a negotiation where \<open>epsv\<close> returns an error, \<open>getDataConnPort\<close> sets the flag and goes
  on with \<open>pasv\<close>. An attempt that panics returns nothing and is not among these.
\<close>

theorem skipEPSV_sticky:
  assumes "run E calls c = Some c'"
  shows "options c' = options c
     \<and> (skipEPSV c \<longrightarrow> skipEPSV c')
     \<and> (\<exists>evs. wire c' = wire c @ evs
           \<and> (skipEPSV c \<or> disableEPSV (options c) \<longrightarrow> Cmd ''EPSV'' [] \<notin> set evs)
           \<and> (\<forall>xs ys port err.
                 evs = xs @ Cmd ''EPSV'' [] # ys
                 \<and> fst (epsv E (c\<lparr>wire := wire c @ xs\<rparr>)) = Return (port, Some err) \<longrightarrow>
                 skipEPSV c' \<and> Cmd ''EPSV'' [] \<notin> set ys))
     \<and> (skipEPSV c \<or> disableEPSV (options c) \<longrightarrow> getDataConnPort E c = pasv E c)
     \<and> (\<forall>port err. \<not> skipEPSV c \<and> \<not> disableEPSV (options c)
           \<and> fst (epsv E c) = Return (port, Some err) \<longrightarrow>
           getDataConnPort E c = pasv E ((snd (epsv E c))\<lparr>skipEPSV := True\<rparr>)
           \<and> skipEPSV (snd (getDataConnPort E c)))"
proof -
  have "performs (only (- {''EPSV''})) E c c'"
    using p_run [OF assms performs.nothing] .
  then have s: "sticky (only (- {''EPSV''})) E c c'"
    by (rule performs_sticky) simp
  then obtain evs where evs: "wire c' = wire c @ evs"
    "skipEPSV c \<or> disableEPSV (options c) \<longrightarrow>
       (\<forall>e\<in>set evs. only (- {''EPSV''}) e \<or> e = Cmd ''PASV'' [] \<or> e = ReadResponse 227)"
    "\<forall>xs ys. evs = xs @ Cmd ''EPSV'' [] # ys \<and> epsv_fails E (wire c @ xs) \<longrightarrow>
                  skipEPSV c' \<and> Cmd ''EPSV'' [] \<notin> set ys"
    unfolding sticky_def by blast
  have 1: "options c' = options c" "skipEPSV c \<longrightarrow> skipEPSV c'"
    using s by (simp_all add: sticky_def)
  have 2: "skipEPSV c \<or> disableEPSV (options c) \<longrightarrow> Cmd ''EPSV'' [] \<notin> set evs"
    using evs(2) by auto
  have 3: "\<forall>xs ys port err.
                 evs = xs @ Cmd ''EPSV'' [] # ys
                 \<and> fst (epsv E (c\<lparr>wire := wire c @ xs\<rparr>)) = Return (port, Some err) \<longrightarrow>
                 skipEPSV c' \<and> Cmd ''EPSV'' [] \<notin> set ys"
  proof (intro allI impI, elim conjE)
    fix xs ys port err
    assume e: "evs = xs @ Cmd ''EPSV'' [] # ys"
      and f: "fst (epsv E (c\<lparr>wire := wire c @ xs\<rparr>)) = Return (port, Some err)"
    from f have "epsv_fails E (wire (c\<lparr>wire := wire c @ xs\<rparr>))"
      unfolding epsv_fails_iff by blast
    then have "epsv_fails E (wire c @ xs)" by simp
    with evs(3) e show "skipEPSV c' \<and> Cmd ''EPSV'' [] \<notin> set ys" by blast
  qed
  have 4: "skipEPSV c \<or> disableEPSV (options c) \<longrightarrow> getDataConnPort E c = pasv E c"
    by (auto simp: getDataConnPort_def)
  have 5: "\<forall>port err. \<not> skipEPSV c \<and> \<not> disableEPSV (options c)
           \<and> fst (epsv E c) = Return (port, Some err) \<longrightarrow>
           getDataConnPort E c = pasv E ((snd (epsv E c))\<lparr>skipEPSV := True\<rparr>)
           \<and> skipEPSV (snd (getDataConnPort E c))"
  proof (intro allI impI, elim conjE)
    fix port err
    assume a: "\<not> skipEPSV c" "\<not> disableEPSV (options c)" "fst (epsv E c) = Return (port, Some err)"
    then have g: "getDataConnPort E c = pasv E ((snd (epsv E c))\<lparr>skipEPSV := True\<rparr>)"
      by (cases "epsv E c") (simp add: getDataConnPort_def)
    have "skipEPSV (snd (pasv E ((snd (epsv E c))\<lparr>skipEPSV := True\<rparr>)))"
      by (simp add: snd_pasv snd_cmd)
    with g show "getDataConnPort E c = pasv E ((snd (epsv E c))\<lparr>skipEPSV := True\<rparr>)
           \<and> skipEPSV (snd (getDataConnPort E c))" by simp
  qed
  from 1 evs(1) 2 3 4 5 show ?thesis by blast
qed

theorem skipEPSV_sticky_witness:
  "map_option wire
     (run (script_server [Inr (500, ''EPSV not understood''),
                          Inr (227, ''Entering Passive Mode (127,0,0,1,7,208).''),
                          Inr (150, ''Here comes the directory listing.''),
                          Inr (226, ''Directory send OK.''),
                          Inr (227, ''Entering Passive Mode (127,0,0,1,7,209).''),
                          Inr (150, ''Here comes the directory listing.''),
                          Inr (226, ''Directory send OK.'')]
                         [([(''/incoming'', None)], None), ([(''/incoming'', None)], None)])
        [CallNameList ''/'', CallNameList ''/''] session0)
     = Some [Cmd ''EPSV'' [], ReadResponse 229, Cmd ''PASV'' [], ReadResponse 227,
             Dial DialPlain ''127.0.0.1'' 2000, Cmd ''NLST %s'' [S ''/''],
             ReadResponse (- 1), DataScan 4, DataClose 4, ReadResponse 226,
             Cmd ''PASV'' [], ReadResponse 227, Dial DialPlain ''127.0.0.1'' 2001,
             Cmd ''NLST %s'' [S ''/''], ReadResponse (- 1), DataScan 12, DataClose 12,
             ReadResponse 226]
   \<and> map_option skipEPSV
     (run (script_server [Inr (500, ''EPSV not understood''),
                          Inr (227, ''Entering Passive Mode (127,0,0,1,7,208).''),
                          Inr (150, ''Here comes the directory listing.''),
                          Inr (226, ''Directory send OK.''),
                          Inr (227, ''Entering Passive Mode (127,0,0,1,7,209).''),
                          Inr (150, ''Here comes the directory listing.''),
                          Inr (226, ''Directory send OK.'')]
                         [([(''/incoming'', None)], None), ([(''/incoming'', None)], None)])
        [CallNameList ''/'', CallNameList ''/''] session0)
     = Some True"
proof -
  let ?E = "script_server [Inr (500, ''EPSV not understood''),
                          Inr (227, ''Entering Passive Mode (127,0,0,1,7,208).''),
                          Inr (150, ''Here comes the directory listing.''),
                          Inr (226, ''Directory send OK.''),
                          Inr (227, ''Entering Passive Mode (127,0,0,1,7,209).''),
                          Inr (150, ''Here comes the directory listing.''),
                          Inr (226, ''Directory send OK.'')]
                         [([(''/incoming'', None)], None), ([(''/incoming'', None)], None)]"
  let ?ys = "[ReadResponse 229, Cmd ''PASV'' [], ReadResponse 227,
             Dial DialPlain ''127.0.0.1'' 2000, Cmd ''NLST %s'' [S ''/''],
             ReadResponse (- 1), DataScan 4, DataClose 4, ReadResponse 226,
             Cmd ''PASV'' [], ReadResponse 227, Dial DialPlain ''127.0.0.1'' 2001,
             Cmd ''NLST %s'' [S ''/''], ReadResponse (- 1), DataScan 12, DataClose 12,
             ReadResponse 226]"
  have r: "map_option wire (run ?E [CallNameList ''/'', CallNameList ''/''] session0)
             = Some (Cmd ''EPSV'' [] # ?ys)"
    by code_simp
  then obtain c' where c': "run ?E [CallNameList ''/'', CallNameList ''/''] session0 = Some c'"
    and w': "wire c' = Cmd ''EPSV'' [] # ?ys"
    by auto
  have f: "fst (epsv ?E (session0\<lparr>wire := wire session0 @ []\<rparr>))
             = Return (0, Some (TextprotoError 500 ''EPSV not understood''))"
    by code_simp
  from skipEPSV_sticky [OF c'] obtain evs where
    w: "wire c' = wire session0 @ evs" and
    s: "\<forall>xs ys port err.
                 evs = xs @ Cmd ''EPSV'' [] # ys
                 \<and> fst (epsv ?E (session0\<lparr>wire := wire session0 @ xs\<rparr>)) = Return (port, Some err) \<longrightarrow>
                 skipEPSV c' \<and> Cmd ''EPSV'' [] \<notin> set ys"
    by blast
  from w w' have "evs = [] @ Cmd ''EPSV'' [] # ?ys" by (simp add: session0_def)
  with s f have "skipEPSV c'" by blast
  with c' r show ?thesis by simp
qed

text \<open>
  Claim C1: once an attempt at \<open>EPSV\<close> fails, the flag \<open>skipEPSV\<close> is set and every later
  negotiation goes to \<open>PASV\<close> without writing \<open>EPSV\<close> again. The code departs from this when
  the attempt fails by a panic. \<open>EPSV\<close> is answered by the line
  \<open>229 Entering Extended Passive Mode (|||)\<close>: \<open>epsv\<close> panics on the slice of the port, the
  panic unwinds through \<open>getDataConnPort\<close> before \<open>c.skipEPSV = true\<close> is reached, the flag
  stays unset and no \<open>PASV\<close> is written. Two calls of \<open>NameList\<close> on a new session, with
  that answer each time, leave the flag unset and write \<open>EPSV\<close> twice: the second negotiation
  tries the extended mode again.
\<close>

theorem skipEPSV_unset_when_epsv_panics:
  "fst (getDataConnPort
          (script_server [Inr (229, ''Entering Extended Passive Mode (|||)''),
                          Inr (229, ''Entering Extended Passive Mode (|||)'')] []) session0)
     = Panic ''slice bounds out of range''
   \<and> \<not> skipEPSV (snd (getDataConnPort
          (script_server [Inr (229, ''Entering Extended Passive Mode (|||)''),
                          Inr (229, ''Entering Extended Passive Mode (|||)'')] []) session0))
   \<and> wire (snd (getDataConnPort
          (script_server [Inr (229, ''Entering Extended Passive Mode (|||)''),
                          Inr (229, ''Entering Extended Passive Mode (|||)'')] []) session0))
     = [Cmd ''EPSV'' [], ReadResponse 229]
   \<and> map_option skipEPSV
        (run (script_server [Inr (229, ''Entering Extended Passive Mode (|||)''),
                             Inr (229, ''Entering Extended Passive Mode (|||)'')] [])
           [CallNameList ''/'', CallNameList ''/''] session0) = Some False
   \<and> map_option wire
        (run (script_server [Inr (229, ''Entering Extended Passive Mode (|||)''),
                             Inr (229, ''Entering Extended Passive Mode (|||)'')] [])
           [CallNameList ''/'', CallNameList ''/''] session0)
     = Some [Cmd ''EPSV'' [], ReadResponse 229, Cmd ''EPSV'' [], ReadResponse 229]"
  by code_simp

subsection \<open>Malformed replies to EPSV and PASV\<close>

text \<open>
  Claim C2: a malformed reply to \<open>EPSV\<close> or \<open>PASV\<close> makes the negotiation return a format
  error and never fail in another way. The code checks that the delimiters are present but
  not that they are in order. When the last \<open>|\<close> of the reply to \<open>EPSV\<close> is the third bar of
  \<open>|||\<close> (the port and the closing bar are missing), the slice \<open>line[start+3 : end]\<close> has
  its lower bound above its upper bound and the negotiation panics; so does \<open>pasv\<close> on a
  reply whose last \<open>)\<close> stands before its first \<open>(\<close>.
\<close>

theorem getDataConnPort_panics_on_malformed_reply:
  "fst (getDataConnPort
          (script_server [Inr (229, ''Entering Extended Passive Mode (|||)'')] []) session0)
     = Panic ''slice bounds out of range''
   \<and> fst (epsv (script_server [Inr (229, ''Entering Extended Passive Mode (|||)'')] []) session0)
     = Panic ''slice bounds out of range''
   \<and> fst (pasv (script_server [Inr (227, ''Entering Passive Mode ) 127,0,0,1,7,208 ('')] [])
             session0)
     = Panic ''slice bounds out of range''"
  by code_simp

subsection \<open>The reply to PWD\<close>

text \<open>
  Claim C9: \<open>CurrentDir\<close> returns what stands between the first and the last double quote of
  the message and fails with a format error when the quotes are missing. The code only
  checks that a quote is present: on a message with exactly one double quote (the closing
  quote is missing) the first and the last quote are the same byte, the slice
  \<open>msg[start+1 : end]\<close> has its lower bound above its upper bound, and \<open>CurrentDir\<close> panics
  instead of returning a path or a format error.
\<close>

theorem CurrentDir_panics_on_single_quote:
  "fst (CurrentDir (script_server [Inr (257, ''\"/incoming is current directory'')] []) session0)
     = Panic ''slice bounds out of range''"
  by code_simp

subsection \<open>Closing a data connection\<close>

text \<open>
  Claim C7: \<open>Response.Close\<close> is idempotent. The first call (on a \<open>Response\<close> that is not
  closed) closes the data socket and then reads one reply from the control connection,
  expecting 226, and leaves the \<open>Response\<close> closed whatever the two operations return; every
  later call, in whatever state the session is by then, performs no operation on either
  connection and returns no error.
\<close>

theorem Response_Close_idempotent:
  assumes "Close E r c = (err, r1, c1)"
  shows "closed r1
     \<and> (\<not> closed r \<longrightarrow>
           wire c1 = wire c @ [DataClose (conn r), ReadResponse StatusClosingDataConnection]
         \<and> conn r1 = conn r)
     \<and> (closed r \<longrightarrow> err = None \<and> r1 = r \<and> c1 = c)
     \<and> (\<forall>c2. Close E r1 c2 = (None, r1, c2))"
proof (cases "closed r")
  case True
  with assms have "err = None \<and> r1 = r \<and> c1 = c" by (simp add: Close_def)
  with True show ?thesis by (simp add: Close_def)
next
  case False
  with assms have "r1 = r\<lparr>closed := True\<rparr>"
    and "c1 = emit (ReadResponse StatusClosingDataConnection) (emit (DataClose (conn r)) c)"
    by (simp_all add: Close_def Close_data_def ReadResponse_conn_def split: prod.splits)
  with False show ?thesis by (simp add: Close_def)
qed

theorem Response_Close_idempotent_witness:
  "Close (script_server [Inr (226, ''Transfer complete'')] []) \<lparr>conn = 0, closed = False\<rparr> session0
     = (None, \<lparr>conn = 0, closed = True\<rparr>,
        session0\<lparr>wire := [DataClose 0, ReadResponse 226]\<rparr>)
   \<and> Close (script_server [Inr (226, ''Transfer complete'')] []) \<lparr>conn = 0, closed = True\<rparr>
        (session0\<lparr>wire := [DataClose 0, ReadResponse 226]\<rparr>)
     = (None, \<lparr>conn = 0, closed = True\<rparr>, session0\<lparr>wire := [DataClose 0, ReadResponse 226]\<rparr>)"
proof -
  have h: "Close (script_server [Inr (226, ''Transfer complete'')] []) \<lparr>conn = 0, closed = False\<rparr> session0
     = (None, \<lparr>conn = 0, closed = True\<rparr>,
        session0\<lparr>wire := [DataClose 0, ReadResponse 226]\<rparr>)"
    by (simp add: Close_def io_defs script_defs Status_defs)
  from Response_Close_idempotent [OF h]
  have "\<forall>c2. Close (script_server [Inr (226, ''Transfer complete'')] [])
               \<lparr>conn = 0, closed = True\<rparr> c2 = (None, \<lparr>conn = 0, closed = True\<rparr>, c2)"
    by blast
  with h show ?thesis by blast
qed

subsection \<open>UTF-8 negotiation\<close>

lemma setUTF8_without: "features c ''UTF8'' = None \<Longrightarrow> setUTF8 E c = (None, c)"
  by (simp add: setUTF8_def)

lemma setUTF8_with:
  "features c ''UTF8'' \<noteq> None \<Longrightarrow>
   setUTF8 E c =
     (if cmdErr E (wire c) = None
      then (case response E (wire c @ [Cmd ''OPTS UTF8 ON'' []]) of
              Inl (k, err) \<Rightarrow> Some err
            | Inr (code, message) \<Rightarrow>
                if code = 501 \<or> code = 202 \<or> code = 200 then None else Some (ErrorsNew message),
            emit (ReadResponse (- 1)) (emit (Cmd ''OPTS UTF8 ON'' []) c))
      else (cmdErr E (wire c), emit (Cmd ''OPTS UTF8 ON'' []) c))"
  by (auto simp: setUTF8_def cmd_eq expect_Inl expect_any Status_defs split: sum.splits prod.splits)

text \<open>
  Claim C6: \<open>OPTS UTF8 ON\<close> is sent if and only if the features of the session contain
  \<open>UTF8\<close>: without the feature \<open>setUTF8\<close> returns no error and leaves the session as it is,
  with the feature the command is the first thing written. When the command is written and
  answered by a reply with code 501, 202 or 200 the result is no error; any other code
  gives an error made of the message of the server. In \<open>Login\<close> (here after a reply 230 to
  \<open>USER\<close> and an accepted \<open>TYPE I\<close>) this error is the error of the login.
\<close>

theorem setUTF8_negotiation:
  "(features c ''UTF8'' = None \<longrightarrow> setUTF8 E c = (None, c))
   \<and> (features c ''UTF8'' \<noteq> None \<longrightarrow>
        (\<exists>evs. wire (snd (setUTF8 E c)) = wire c @ Cmd ''OPTS UTF8 ON'' [] # evs))
   \<and> (features c ''UTF8'' \<noteq> None \<and> cmdErr E (wire c) = None
        \<and> response E (wire c @ [Cmd ''OPTS UTF8 ON'' []]) = Inr (code, message) \<longrightarrow>
        fst (setUTF8 E c)
          = (if code = 501 \<or> code = 202 \<or> code = 200 then None else Some (ErrorsNew message)))
   \<and> (cmd E (- 1) ''USER %s'' [S user] c = ((StatusLoggedIn, m, None), c1)
        \<and> cmd E StatusCommandOK ''TYPE I'' [] c1 = ((k, m1, None), c2) \<longrightarrow>
        fst (Login E user password c) = fst (setUTF8 E c2))"
proof -
  have 1: "features c ''UTF8'' = None \<longrightarrow> setUTF8 E c = (None, c)"
    by (simp add: setUTF8_without)
  have 2: "features c ''UTF8'' \<noteq> None \<longrightarrow>
        (\<exists>evs. wire (snd (setUTF8 E c)) = wire c @ Cmd ''OPTS UTF8 ON'' [] # evs)"
    by (simp add: setUTF8_with)
  have 3: "features c ''UTF8'' \<noteq> None \<and> cmdErr E (wire c) = None
        \<and> response E (wire c @ [Cmd ''OPTS UTF8 ON'' []]) = Inr (code, message) \<longrightarrow>
        fst (setUTF8 E c)
          = (if code = 501 \<or> code = 202 \<or> code = 200 then None else Some (ErrorsNew message))"
    by (simp add: setUTF8_with)
  have 4: "cmd E (- 1) ''USER %s'' [S user] c = ((StatusLoggedIn, m, None), c1)
        \<and> cmd E StatusCommandOK ''TYPE I'' [] c1 = ((k, m1, None), c2) \<longrightarrow>
        fst (Login E user password c) = fst (setUTF8 E c2)"
    by (simp add: Login_def Login_modes_def split: prod.splits)
  from 1 2 3 4 show ?thesis by blast
qed

theorem setUTF8_negotiation_witness:
  "features (session0\<lparr>features := [''UTF8'' \<mapsto> '''']\<rparr>) ''UTF8'' \<noteq> None
   \<and> fst (setUTF8 (script_server [Inr (202, ''UTF8 mode is always enabled.'')] [])
            (session0\<lparr>features := [''UTF8'' \<mapsto> '''']\<rparr>)) = None
   \<and> fst (setUTF8 (script_server [Inr (504, ''Not implemented for that parameter'')] [])
            (session0\<lparr>features := [''UTF8'' \<mapsto> '''']\<rparr>))
       = Some (ErrorsNew ''Not implemented for that parameter'')
   \<and> features session0 ''UTF8'' = None
   \<and> setUTF8 (script_server [] []) session0 = (None, session0)"
proof -
  let ?c = "session0\<lparr>features := [''UTF8'' \<mapsto> '''']\<rparr>"
  let ?E = "script_server [Inr (202, ''UTF8 mode is always enabled.'')] []"
  let ?F = "script_server [Inr (504, ''Not implemented for that parameter'')] []"
  have f: "features ?c ''UTF8'' \<noteq> None" by simp
  have e: "cmdErr ?E (wire ?c) = None
     \<and> response ?E (wire ?c @ [Cmd ''OPTS UTF8 ON'' []]) = Inr (202, ''UTF8 mode is always enabled.'')"
    by (simp add: script_defs)
  have g: "cmdErr ?F (wire ?c) = None
     \<and> response ?F (wire ?c @ [Cmd ''OPTS UTF8 ON'' []])
         = Inr (504, ''Not implemented for that parameter'')"
    by (simp add: script_defs)
  have n: "features session0 ''UTF8'' = None" by (simp add: session0_def)
  from setUTF8_negotiation [where c = ?c and E = ?E and code = 202
      and message = "''UTF8 mode is always enabled.''"] f e
  have 1: "fst (setUTF8 ?E ?c) = None" by simp
  from setUTF8_negotiation [where c = ?c and E = ?F and code = 504
      and message = "''Not implemented for that parameter''"] f g
  have 2: "fst (setUTF8 ?F ?c) = Some (ErrorsNew ''Not implemented for that parameter'')" by simp
  from setUTF8_negotiation [where c = session0 and E = "script_server [] []"] n
  have 3: "setUTF8 (script_server [] []) session0 = (None, session0)" by blast
  from f 1 2 n 3 show ?thesis by blast
qed

subsection \<open>Logging in\<close>

lemma Login_modes_wire:
  "\<exists>evs. wire (snd (Login_modes E c)) = wire c @ evs \<and> (\<forall>a. Cmd ''PASS %s'' a \<notin> set evs)"
proof -
  have "performs (only (- {''PASS %s''})) E c (snd (Login_modes E c))"
    using p_Login_modes [of E c "fst (Login_modes E c)" "snd (Login_modes E c)"
                            "- {''PASS %s''}" c]
    by (simp add: performs.nothing)
  from performs_events [OF this] show ?thesis by fastforce
qed

lemma Login_modes_ok:
  "fst (Login_modes E c) = None \<longleftrightarrow>
     snd (snd (fst (cmd E StatusCommandOK ''TYPE I'' [] c))) = None
     \<and> fst (setUTF8 E (snd (cmd E StatusCommandOK ''TYPE I'' [] c))) = None"
  by (cases "cmd E StatusCommandOK ''TYPE I'' [] c")
     (auto simp: Login_modes_def split: prod.splits option.splits)

text \<open>
  Claim C5, as the code has it. \<open>Login\<close> writes \<open>USER\<close> and reads the reply. On 230 no
  \<open>PASS\<close> is ever written; on 331 \<open>PASS\<close> is written next and its reply must be 230: another
  code \<open>k\<close> ends the login with the protocol error of that reply and nothing more is written
  (so a wrong password fails); on any other code the login fails with an error made of the
  message of the server. After a successful \<open>USER\<close>/\<open>PASS\<close> exchange \<open>Login\<close> goes on to
  \<open>TYPE I\<close> and the UTF-8 negotiation, and returns no error exactly when \<open>TYPE I\<close> is
  answered by 200 and \<open>setUTF8\<close> returns no error.
\<close>

theorem Login_branches:
  assumes "cmdErr E (wire c) = None"
    and "response E (wire c @ [Cmd ''USER %s'' [S user]]) = Inr (code, message)"
  shows "let c1 = c\<lparr>wire := wire c @ [Cmd ''USER %s'' [S user], ReadResponse (- 1)]\<rparr>;
             modes_ok = (\<lambda>c2. snd (snd (fst (cmd E StatusCommandOK ''TYPE I'' [] c2))) = None
                            \<and> fst (setUTF8 E (snd (cmd E StatusCommandOK ''TYPE I'' [] c2))) = None);
             pass = cmd E StatusLoggedIn ''PASS %s'' [S password] c1
         in (code = 230 \<longrightarrow>
               (\<forall>a. Cmd ''PASS %s'' a
                       \<notin> set (drop (length (wire c)) (wire (snd (Login E user password c)))))
               \<and> (fst (Login E user password c) = None \<longleftrightarrow> modes_ok c1))
          \<and> (code = 331 \<longrightarrow>
               (\<exists>evs. wire (snd (Login E user password c))
                        = wire c1 @ Cmd ''PASS %s'' [S password] # evs)
               \<and> (fst (Login E user password c) = None
                    \<longleftrightarrow> snd (snd (fst pass)) = None \<and> modes_ok (snd pass))
               \<and> (\<forall>k m. cmdErr E (wire c1) = None
                     \<and> response E (wire c1 @ [Cmd ''PASS %s'' [S password]]) = Inr (k, m)
                     \<and> k \<noteq> 230 \<longrightarrow>
                     Login E user password c
                       = (Some (TextprotoError k m),
                          c1\<lparr>wire := wire c1 @ [Cmd ''PASS %s'' [S password], ReadResponse 230]\<rparr>)))
          \<and> (code \<noteq> 230 \<and> code \<noteq> 331 \<longrightarrow>
               Login E user password c = (Some (ErrorsNew message), c1))"
proof -
  define c1 where "c1 = c\<lparr>wire := wire c @ [Cmd ''USER %s'' [S user], ReadResponse (- 1)]\<rparr>"
  define pass where "pass = cmd E StatusLoggedIn ''PASS %s'' [S password] c1"
  have u: "cmd E (- 1) ''USER %s'' [S user] c = ((code, message, None), c1)"
    using assms by (simp add: cmd_eq expect_any c1_def emit_def)
  have a: "code = 230 \<Longrightarrow> Login E user password c = Login_modes E c1"
    using u by (simp add: Login_def Status_defs)
  have b: "code = 331 \<Longrightarrow> Login E user password c =
       (case pass of
          ((code1, msg1, Some err), c2) \<Rightarrow> (Some err, c2)
        | ((code1, msg1, None), c2) \<Rightarrow> Login_modes E c2)"
    using u by (simp add: Login_def Status_defs pass_def)
  have 1: "code = 230 \<longrightarrow>
               (\<forall>a. Cmd ''PASS %s'' a
                       \<notin> set (drop (length (wire c)) (wire (snd (Login E user password c)))))"
  proof
    assume c: "code = 230"
    obtain evs where e: "wire (snd (Login_modes E c1)) = wire c1 @ evs"
       "\<forall>a. Cmd ''PASS %s'' a \<notin> set evs"
      using Login_modes_wire by blast
    show "\<forall>a. Cmd ''PASS %s'' a
                       \<notin> set (drop (length (wire c)) (wire (snd (Login E user password c))))"
      using e by (simp add: a [OF c] c1_def)
  qed
  obtain k1 m1 e1 c2 where p: "pass = ((k1, m1, e1), c2)" by (cases pass) auto
  obtain tl where tl: "c2 = c1\<lparr>wire := wire c1 @ Cmd ''PASS %s'' [S password] # tl\<rparr>"
    using cmd_effect [of E StatusLoggedIn "''PASS %s''" "[S password]" c1] p
    unfolding pass_def by auto
  have 2: "code = 331 \<longrightarrow>
               (\<exists>evs. wire (snd (Login E user password c))
                        = wire c1 @ Cmd ''PASS %s'' [S password] # evs)"
  proof
    assume c: "code = 331"
    show "\<exists>evs. wire (snd (Login E user password c))
                        = wire c1 @ Cmd ''PASS %s'' [S password] # evs"
    proof (cases e1)
      case None
      obtain evs where "wire (snd (Login_modes E c2)) = wire c2 @ evs"
        using Login_modes_wire by blast
      then show ?thesis using b [OF c] p None tl by simp
    next
      case (Some err)
      then show ?thesis using b [OF c] p tl by simp
    qed
  qed
  have 3: "code = 331 \<longrightarrow> (fst (Login E user password c) = None
                    \<longleftrightarrow> snd (snd (fst pass)) = None \<and> fst (Login_modes E (snd pass)) = None)"
    using p by (cases e1) (auto simp: b)
  have 4: "code = 331 \<longrightarrow> (\<forall>k m. cmdErr E (wire c1) = None
                     \<and> response E (wire c1 @ [Cmd ''PASS %s'' [S password]]) = Inr (k, m)
                     \<and> k \<noteq> 230 \<longrightarrow>
                     Login E user password c
                       = (Some (TextprotoError k m),
                          c1\<lparr>wire := wire c1 @ [Cmd ''PASS %s'' [S password], ReadResponse 230]\<rparr>))"
    by (auto simp: b pass_def cmd_eq expect_code Status_defs emit_def)
  have 5: "code \<noteq> 230 \<and> code \<noteq> 331 \<longrightarrow>
               Login E user password c = (Some (ErrorsNew message), c1)"
    using u by (simp add: Login_def Status_defs)
  show ?thesis
    unfolding Let_def c1_def [symmetric] pass_def [symmetric]
    using 1 2 3 4 5 a Login_modes_ok by simp
qed

theorem Login_branches_witness:
  "Login (script_server [Inr (331, ''Password required''), Inr (530, ''Login incorrect'')] [])
      ''anonymous'' ''wrong'' session0
     = (Some (TextprotoError 530 ''Login incorrect''),
        session0\<lparr>wire := [Cmd ''USER %s'' [S ''anonymous''], ReadResponse (- 1),
                           Cmd ''PASS %s'' [S ''wrong''], ReadResponse 230]\<rparr>)
   \<and> Login (script_server [Inr (421, ''Too many users'')] []) ''anonymous'' ''anonymous'' session0
     = (Some (ErrorsNew ''Too many users''),
        session0\<lparr>wire := [Cmd ''USER %s'' [S ''anonymous''], ReadResponse (- 1)]\<rparr>)
   \<and> fst (Login (script_server [Inr (230, ''User logged in''), Inr (200, ''Type set to I'')] [])
            ''anonymous'' ''anonymous'' session0) = None"
proof -
  let ?E = "script_server [Inr (331, ''Password required''), Inr (530, ''Login incorrect'')] []"
  let ?F = "script_server [Inr (421, ''Too many users'')] []"
  let ?G = "script_server [Inr (230, ''User logged in''), Inr (200, ''Type set to I'')] []"
  have e: "cmdErr ?E (wire session0) = None"
    "response ?E (wire session0 @ [Cmd ''USER %s'' [S ''anonymous'']]) = Inr (331, ''Password required'')"
    by (simp_all add: script_defs)
  have f: "cmdErr ?F (wire session0) = None"
    "response ?F (wire session0 @ [Cmd ''USER %s'' [S ''anonymous'']]) = Inr (421, ''Too many users'')"
    by (simp_all add: script_defs)
  have g: "cmdErr ?G (wire session0) = None"
    "response ?G (wire session0 @ [Cmd ''USER %s'' [S ''anonymous'']]) = Inr (230, ''User logged in'')"
    by (simp_all add: script_defs)
  from Login_branches [OF e, of "''wrong''"]
  have 1: "Login ?E ''anonymous'' ''wrong'' session0
     = (Some (TextprotoError 530 ''Login incorrect''),
        session0\<lparr>wire := [Cmd ''USER %s'' [S ''anonymous''], ReadResponse (- 1),
                           Cmd ''PASS %s'' [S ''wrong''], ReadResponse 230]\<rparr>)"
    by (simp add: Let_def script_defs)
  from Login_branches [OF f, of "''anonymous''"]
  have 2: "Login ?F ''anonymous'' ''anonymous'' session0
     = (Some (ErrorsNew ''Too many users''),
        session0\<lparr>wire := [Cmd ''USER %s'' [S ''anonymous''], ReadResponse (- 1)]\<rparr>)"
    by (simp add: Let_def script_defs)
  from Login_branches [OF g, of "''anonymous''"]
  have 3: "fst (Login ?G ''anonymous'' ''anonymous'' session0) = None"
    by (simp add: Let_def script_defs io_defs setUTF8_def Status_defs)
  from 1 2 3 show ?thesis by blast
qed

text \<open>
  Claim C5 as it is written says that a reply 230 to \<open>USER\<close> makes the login succeed. It
  does not when the server then refuses \<open>TYPE I\<close>.
\<close>

theorem Login_230_may_fail:
  "response (script_server [Inr (230, ''User logged in''), Inr (500, ''TYPE not understood'')] [])
      (wire session0 @ [Cmd ''USER %s'' [S ''anonymous'']]) = Inr (230, ''User logged in'')
   \<and> fst (Login (script_server [Inr (230, ''User logged in''), Inr (500, ''TYPE not understood'')] [])
            ''anonymous'' ''anonymous'' session0)
     = Some (TextprotoError 500 ''TYPE not understood'')"
  by code_simp


subsection \<open>Opening a data command\<close>

lemma transfer_eq:
  "cmdDataConnFrom_transfer E sock format args c =
     (if cmdErr E (wire c) \<noteq> None
      then (Inl (the (cmdErr E (wire c))), c\<lparr>wire := wire c @ [Cmd format args, DataClose sock]\<rparr>)
      else (case response E (wire c @ [Cmd format args]) of
              Inl (k, err) \<Rightarrow>
                (Inl err, c\<lparr>wire := wire c @ [Cmd format args, ReadResponse (- 1), DataClose sock]\<rparr>)
            | Inr (code, msg) \<Rightarrow>
                if code = 125 \<or> code = 150
                then (Inr sock, c\<lparr>wire := wire c @ [Cmd format args, ReadResponse (- 1)]\<rparr>)
                else (Inl (TextprotoError code msg),
                      c\<lparr>wire := wire c @ [Cmd format args, ReadResponse (- 1), DataClose sock]\<rparr>)))"
  by (auto simp: cmdDataConnFrom_transfer_def Cmd_conn_def ReadResponse_conn_def Close_data_def
                 emit_def expect_Inl expect_any Status_defs
           split: option.splits sum.splits prod.splits)

lemma cmdDataConnFrom_opened:
  assumes "openDataConn E c = (Return (Inr sock), c1)"
  shows "cmdDataConnFrom E offset format args c =
     (if offset \<noteq> 0
      then (case cmd E StatusRequestFilePending ''REST %d'' [U offset] c1 of
              ((code, msg, Some err), c2) \<Rightarrow> (Return (Inl err), emit (DataClose sock) c2)
            | ((code, msg, None), c2) \<Rightarrow>
                (Return (fst (cmdDataConnFrom_transfer E sock format args c2)),
                 snd (cmdDataConnFrom_transfer E sock format args c2)))
      else (Return (fst (cmdDataConnFrom_transfer E sock format args c1)),
            snd (cmdDataConnFrom_transfer E sock format args c1)))"
  using assms
  by (simp add: cmdDataConnFrom_def Close_data_def split: prod.splits option.splits)

text \<open>
  Claim C3: when the data socket \<open>sock\<close> has been negotiated and opened (in state \<open>c1\<close>),
  \<open>cmdDataConnFrom\<close> goes on as follows. With offset 0 the transfer command is the next
  thing written; with another offset \<open>REST\<close> is written first. If \<open>REST\<close> returns an error
  (in particular on any reply whose code is not 350), the socket is closed and that error is
  returned. Otherwise the transfer command is written and a reply is read with no code
  expected: on 125 or 150 the socket is returned, still open; on any other code the socket
  is closed and the result is the protocol error with the code and the message of the
  server.
\<close>

theorem cmdDataConnFrom_protocol:
  assumes "openDataConn E c = (Return (Inr sock), c1)"
  shows "(offset = 0 \<longrightarrow>
            (\<exists>evs. wire (snd (cmdDataConnFrom E offset format args c))
                     = wire c1 @ Cmd format args # evs))
     \<and> (offset \<noteq> 0 \<longrightarrow>
            (\<exists>evs. wire (snd (cmdDataConnFrom E offset format args c))
                     = wire c1 @ Cmd ''REST %d'' [U offset] # evs))
     \<and> (\<forall>code msg err c2.
           offset \<noteq> 0
           \<and> cmd E StatusRequestFilePending ''REST %d'' [U offset] c1 = ((code, msg, Some err), c2)
           \<longrightarrow> cmdDataConnFrom E offset format args c
                 = (Return (Inl err), c2\<lparr>wire := wire c2 @ [DataClose sock]\<rparr>))
     \<and> (\<forall>k m. offset \<noteq> 0 \<and> cmdErr E (wire c1) = None
           \<and> response E (wire c1 @ [Cmd ''REST %d'' [U offset]]) = Inr (k, m) \<and> k \<noteq> 350
           \<longrightarrow> cmdDataConnFrom E offset format args c
                 = (Return (Inl (TextprotoError k m)),
                    c1\<lparr>wire := wire c1 @ [Cmd ''REST %d'' [U offset], ReadResponse 350,
                                            DataClose sock]\<rparr>))
     \<and> (\<forall>c2 code msg.
           c2 = (if offset \<noteq> 0
                 then snd (cmd E StatusRequestFilePending ''REST %d'' [U offset] c1) else c1)
           \<and> (offset \<noteq> 0 \<longrightarrow>
                snd (snd (fst (cmd E StatusRequestFilePending ''REST %d'' [U offset] c1))) = None)
           \<and> cmdErr E (wire c2) = None
           \<and> response E (wire c2 @ [Cmd format args]) = Inr (code, msg)
           \<longrightarrow> cmdDataConnFrom E offset format args c
                 = (if code = 125 \<or> code = 150
                    then (Return (Inr sock),
                          c2\<lparr>wire := wire c2 @ [Cmd format args, ReadResponse (- 1)]\<rparr>)
                    else (Return (Inl (TextprotoError code msg)),
                          c2\<lparr>wire := wire c2 @ [Cmd format args, ReadResponse (- 1),
                                                  DataClose sock]\<rparr>)))"
proof -
  note o = cmdDataConnFrom_opened [OF assms]
  let ?rest = "cmd E StatusRequestFilePending ''REST %d'' [U offset] c1"
  obtain rc rm re c2 where r: "?rest = ((rc, rm, re), c2)" by (cases ?rest) auto
  obtain tl where tl: "c2 = c1\<lparr>wire := wire c1 @ Cmd ''REST %d'' [U offset] # tl\<rparr>"
    using cmd_effect [of E StatusRequestFilePending "''REST %d''" "[U offset]" c1] r by auto
  have t: "\<And>d. \<exists>evs. wire (snd (cmdDataConnFrom_transfer E sock format args d))
                       = wire d @ Cmd format args # evs"
    by (auto simp: transfer_eq split: sum.splits prod.splits)
  have 1: "offset = 0 \<longrightarrow>
            (\<exists>evs. wire (snd (cmdDataConnFrom E offset format args c))
                     = wire c1 @ Cmd format args # evs)"
    using t [of c1] by (simp add: o)
  have 2: "offset \<noteq> 0 \<longrightarrow>
            (\<exists>evs. wire (snd (cmdDataConnFrom E offset format args c))
                     = wire c1 @ Cmd ''REST %d'' [U offset] # evs)"
  proof (cases re)
    case None
    from t [of c2] obtain evs where
      "wire (snd (cmdDataConnFrom_transfer E sock format args c2)) = wire c2 @ Cmd format args # evs"
      by blast
    then show ?thesis using r None tl by (simp add: o)
  next
    case (Some err)
    then show ?thesis using r tl by (simp add: o)
  qed
  have 3: "\<forall>code msg err c2.
           offset \<noteq> 0
           \<and> cmd E StatusRequestFilePending ''REST %d'' [U offset] c1 = ((code, msg, Some err), c2)
           \<longrightarrow> cmdDataConnFrom E offset format args c
                 = (Return (Inl err), c2\<lparr>wire := wire c2 @ [DataClose sock]\<rparr>)"
    by (simp add: o emit_def)
  have 4: "\<forall>k m. offset \<noteq> 0 \<and> cmdErr E (wire c1) = None
           \<and> response E (wire c1 @ [Cmd ''REST %d'' [U offset]]) = Inr (k, m) \<and> k \<noteq> 350
           \<longrightarrow> cmdDataConnFrom E offset format args c
                 = (Return (Inl (TextprotoError k m)),
                    c1\<lparr>wire := wire c1 @ [Cmd ''REST %d'' [U offset], ReadResponse 350,
                                            DataClose sock]\<rparr>)"
    by (simp add: o cmd_eq expect_code Status_defs emit_def)
  have 5: "\<forall>c2 code msg.
           c2 = (if offset \<noteq> 0
                 then snd (cmd E StatusRequestFilePending ''REST %d'' [U offset] c1) else c1)
           \<and> (offset \<noteq> 0 \<longrightarrow>
                snd (snd (fst (cmd E StatusRequestFilePending ''REST %d'' [U offset] c1))) = None)
           \<and> cmdErr E (wire c2) = None
           \<and> response E (wire c2 @ [Cmd format args]) = Inr (code, msg)
           \<longrightarrow> cmdDataConnFrom E offset format args c
                 = (if code = 125 \<or> code = 150
                    then (Return (Inr sock),
                          c2\<lparr>wire := wire c2 @ [Cmd format args, ReadResponse (- 1)]\<rparr>)
                    else (Return (Inl (TextprotoError code msg)),
                          c2\<lparr>wire := wire c2 @ [Cmd format args, ReadResponse (- 1),
                                                  DataClose sock]\<rparr>))"
    using r by (cases re) (auto simp: o transfer_eq)
  from 1 2 3 4 5 show ?thesis by blast
qed

theorem cmdDataConnFrom_protocol_witness:
  "fst (cmdDataConnFrom
          (script_server [Inr (229, ''Entering Extended Passive Mode (|||2000|)''),
                          Inr (350, ''Restart position accepted (5).''),
                          Inr (150, ''Opening BINARY mode data connection for tset'')] [])
          5 ''RETR %s'' [S ''tset''] session0) = Return (Inr 2)
   \<and> wire (snd (cmdDataConnFrom
          (script_server [Inr (229, ''Entering Extended Passive Mode (|||2000|)''),
                          Inr (350, ''Restart position accepted (5).''),
                          Inr (150, ''Opening BINARY mode data connection for tset'')] [])
          5 ''RETR %s'' [S ''tset''] session0))
       = [Cmd ''EPSV'' [], ReadResponse 229, Dial DialPlain ''127.0.0.1'' 2000,
          Cmd ''REST %d'' [U 5], ReadResponse 350, Cmd ''RETR %s'' [S ''tset''],
          ReadResponse (- 1)]
   \<and> fst (cmdDataConnFrom
          (script_server [Inr (229, ''Entering Extended Passive Mode (|||2000|)''),
                          Inr (550, ''Failed to open file.'')] [])
          0 ''RETR %s'' [S ''missing''] session0)
       = Return (Inl (TextprotoError 550 ''Failed to open file.''))
   \<and> wire (snd (cmdDataConnFrom
          (script_server [Inr (229, ''Entering Extended Passive Mode (|||2000|)''),
                          Inr (550, ''Failed to open file.'')] [])
          0 ''RETR %s'' [S ''missing''] session0))
       = [Cmd ''EPSV'' [], ReadResponse 229, Dial DialPlain ''127.0.0.1'' 2000,
          Cmd ''RETR %s'' [S ''missing''], ReadResponse (- 1), DataClose 2]"
proof -
  let ?E = "script_server [Inr (229, ''Entering Extended Passive Mode (|||2000|)''),
                          Inr (350, ''Restart position accepted (5).''),
                          Inr (150, ''Opening BINARY mode data connection for tset'')] []"
  let ?F = "script_server [Inr (229, ''Entering Extended Passive Mode (|||2000|)''),
                          Inr (550, ''Failed to open file.'')] []"
  let ?L = "[Cmd ''EPSV'' [], ReadResponse 229, Dial DialPlain ''127.0.0.1'' 2000]"
  have "fst (openDataConn ?E session0) = Return (Inr 2)"
    "wire (snd (openDataConn ?E session0)) = ?L"
    by code_simp+
  then obtain c1 where c1: "openDataConn ?E session0 = (Return (Inr 2), c1)" "wire c1 = ?L"
    by (cases "openDataConn ?E session0") auto
  have "fst (openDataConn ?F session0) = Return (Inr 2)"
    "wire (snd (openDataConn ?F session0)) = ?L"
    by code_simp+
  then obtain d1 where d1: "openDataConn ?F session0 = (Return (Inr 2), d1)" "wire d1 = ?L"
    by (cases "openDataConn ?F session0") auto
  have rest: "cmd ?E StatusRequestFilePending ''REST %d'' [U 5] c1
      = ((350, ''Restart position accepted (5).'', None),
         c1\<lparr>wire := ?L @ [Cmd ''REST %d'' [U 5], ReadResponse 350]\<rparr>)"
    by (simp add: cmd_eq c1(2) script_defs expect_code Status_defs emit_def)
  have e: "cmdErr ?E (?L @ [Cmd ''REST %d'' [U 5], ReadResponse 350]) = None"
    "response ?E (?L @ [Cmd ''REST %d'' [U 5], ReadResponse 350] @ [Cmd ''RETR %s'' [S ''tset'']])
       = Inr (150, ''Opening BINARY mode data connection for tset'')"
    by (simp_all add: script_defs)
  have f: "cmdErr ?F (wire d1) = None"
    "response ?F (wire d1 @ [Cmd ''RETR %s'' [S ''missing'']]) = Inr (550, ''Failed to open file.'')"
    by (simp_all add: script_defs d1(2))
  from cmdDataConnFrom_protocol [OF c1(1), of 5 "''RETR %s''" "[S ''tset'']"] rest e
  have 1: "cmdDataConnFrom ?E 5 ''RETR %s'' [S ''tset''] session0
      = (Return (Inr 2),
         c1\<lparr>wire := ?L @ [Cmd ''REST %d'' [U 5], ReadResponse 350, Cmd ''RETR %s'' [S ''tset''],
                             ReadResponse (- 1)]\<rparr>)"
    by simp
  from cmdDataConnFrom_protocol [OF d1(1), of 0 "''RETR %s''" "[S ''missing'']"] f
  have 2: "cmdDataConnFrom ?F 0 ''RETR %s'' [S ''missing''] session0
      = (Return (Inl (TextprotoError 550 ''Failed to open file.'')),
         d1\<lparr>wire := ?L @ [Cmd ''RETR %s'' [S ''missing''], ReadResponse (- 1), DataClose 2]\<rparr>)"
    by (simp add: d1(2))
  from 1 2 show ?thesis by simp
qed

subsection \<open>Uploading\<close>

lemma closed_sockets_append [simp]:
  "closed_sockets (xs @ ys) = closed_sockets xs @ closed_sockets ys"
  by (induction xs rule: closed_sockets.induct) auto

lemma cmdDataConnFrom_closes:
  assumes "openDataConn E c = (Return (Inr sock), c1)"
  shows "\<exists>evs r. cmdDataConnFrom E offset format args c = (Return r, c1\<lparr>wire := wire c1 @ evs\<rparr>)
           \<and> closed_sockets evs = (case r of Inl err \<Rightarrow> [sock] | Inr k \<Rightarrow> [])
           \<and> (\<forall>k. r = Inr k \<longrightarrow> k = sock)"
proof -
  note o = cmdDataConnFrom_opened [OF assms]
  have t: "\<And>d. \<exists>evs r. cmdDataConnFrom_transfer E sock format args d = (r, d\<lparr>wire := wire d @ evs\<rparr>)
           \<and> closed_sockets evs = (case r of Inl err \<Rightarrow> [sock] | Inr k \<Rightarrow> [])
           \<and> (\<forall>k. r = Inr k \<longrightarrow> k = sock)"
    by (auto simp: transfer_eq split: sum.splits prod.splits)
  show ?thesis
  proof (cases "offset = 0")
    case True
    from t [of c1] show ?thesis by (auto simp: o True)
  next
    case False
    let ?rest = "cmd E StatusRequestFilePending ''REST %d'' [U offset] c1"
    obtain rc rm re c2 where r: "?rest = ((rc, rm, re), c2)" by (cases ?rest) auto
    obtain tl where tl: "c2 = c1\<lparr>wire := wire c1 @ Cmd ''REST %d'' [U offset] # tl\<rparr>"
      "tl = [] \<or> tl = [ReadResponse StatusRequestFilePending]"
      using cmd_effect [of E StatusRequestFilePending "''REST %d''" "[U offset]" c1] r by auto
    have ctl: "closed_sockets (Cmd ''REST %d'' [U offset] # tl) = []" using tl(2) by auto
    show ?thesis
    proof (cases re)
      case (Some err)
      have "cmdDataConnFrom E offset format args c
              = (Return (Inl err),
                 c1\<lparr>wire := wire c1 @ (Cmd ''REST %d'' [U offset] # tl @ [DataClose sock])\<rparr>)"
        using r Some False tl(1) by (simp add: o emit_def)
      moreover have "closed_sockets (Cmd ''REST %d'' [U offset] # tl @ [DataClose sock]) = [sock]"
        using tl(2) by auto
      ultimately show ?thesis by fastforce
    next
      case None
      from t [of c2] obtain evs r2 where
        e: "cmdDataConnFrom_transfer E sock format args c2 = (r2, c2\<lparr>wire := wire c2 @ evs\<rparr>)"
        "closed_sockets evs = (case r2 of Inl err \<Rightarrow> [sock] | Inr k \<Rightarrow> [])"
        "\<forall>k. r2 = Inr k \<longrightarrow> k = sock"
        by blast
      have "cmdDataConnFrom E offset format args c
              = (Return r2, c1\<lparr>wire := wire c1 @ ((Cmd ''REST %d'' [U offset] # tl) @ evs)\<rparr>)"
        using r None False tl(1) e(1) by (simp add: o)
      moreover have "closed_sockets ((Cmd ''REST %d'' [U offset] # tl) @ evs)
                       = (case r2 of Inl err \<Rightarrow> [sock] | Inr k \<Rightarrow> [])"
        using ctl e(2) by simp
      ultimately show ?thesis using e(3) by blast
    qed
  qed
qed

text \<open>
  Claim C8: in \<open>StorFrom\<close>, once the data socket \<open>sock\<close> is open, the operations that
  follow close exactly one socket, \<open>sock\<close>, exactly once, whatever the server answers and
  whether the copy succeeds or not. When the data command fails the error is returned (with
  code 0); when the copy fails its error is returned (with code 0) after the socket has
  been closed; otherwise one reply is read from the control connection and the call returns
  its code, with no error exactly when the code is 226.
\<close>

theorem StorFrom_closes_once:
  assumes "openDataConn E c = (Return (Inr sock), c1)"
  shows "(\<exists>evs. wire (snd (StorFrom E path offset c)) = wire c1 @ evs
               \<and> closed_sockets evs = [sock])
     \<and> (\<forall>c2 err. cmdDataConnFrom E offset ''STOR %s'' [S path] c = (Return (Inl err), c2)
           \<longrightarrow> StorFrom E path offset c = (Return (0, Some err), c2))
     \<and> (\<forall>c2 err. cmdDataConnFrom E offset ''STOR %s'' [S path] c = (Return (Inr sock), c2)
           \<and> copyErr E (wire c2) = Some err
           \<longrightarrow> StorFrom E path offset c
                 = (Return (0, Some err), c2\<lparr>wire := wire c2 @ [DataCopy sock, DataClose sock]\<rparr>))
     \<and> (\<forall>c2 code msg. cmdDataConnFrom E offset ''STOR %s'' [S path] c = (Return (Inr sock), c2)
           \<and> copyErr E (wire c2) = None
           \<and> response E (wire c2 @ [DataCopy sock, DataClose sock]) = Inr (code, msg)
           \<longrightarrow> StorFrom E path offset c
                 = (Return (code, if code = 226 then None else Some (TextprotoError code msg)),
                    c2\<lparr>wire := wire c2 @ [DataCopy sock, DataClose sock, ReadResponse 226]\<rparr>))"
proof -
  from cmdDataConnFrom_closes [OF assms, of offset "''STOR %s''" "[S path]"]
  obtain evs r where
    d: "cmdDataConnFrom E offset ''STOR %s'' [S path] c = (Return r, c1\<lparr>wire := wire c1 @ evs\<rparr>)"
    and cl: "closed_sockets evs = (case r of Inl err \<Rightarrow> [sock] | Inr k \<Rightarrow> [])"
    and k: "\<forall>k. r = Inr k \<longrightarrow> k = sock"
    by blast
  have 1: "\<exists>evs. wire (snd (StorFrom E path offset c)) = wire c1 @ evs
               \<and> closed_sockets evs = [sock]"
  proof (cases r)
    case (Inl err)
    with d cl show ?thesis by (auto simp: StorFrom_def)
  next
    case (Inr k')
    with k have r: "r = Inr sock" by simp
    let ?c2 = "c1\<lparr>wire := wire c1 @ evs\<rparr>"
    have "\<exists>tl. wire (snd (StorFrom E path offset c))
                 = wire c1 @ (evs @ [DataCopy sock, DataClose sock] @ tl)
               \<and> closed_sockets tl = []"
      using d r
      by (cases "copyErr E (wire ?c2)")
         (auto simp: StorFrom_def Let_def Close_data_def ReadResponse_conn_def emit_def
               split: prod.splits)
    then obtain tl where
      "wire (snd (StorFrom E path offset c)) = wire c1 @ (evs @ [DataCopy sock, DataClose sock] @ tl)"
      "closed_sockets tl = []" by blast
    moreover from this cl r have "closed_sockets (evs @ [DataCopy sock, DataClose sock] @ tl) = [sock]"
      by simp
    ultimately show ?thesis by blast
  qed
  have 2: "\<forall>c2 err. cmdDataConnFrom E offset ''STOR %s'' [S path] c = (Return (Inl err), c2)
           \<longrightarrow> StorFrom E path offset c = (Return (0, Some err), c2)"
    by (simp add: StorFrom_def)
  have 3: "\<forall>c2 err. cmdDataConnFrom E offset ''STOR %s'' [S path] c = (Return (Inr sock), c2)
           \<and> copyErr E (wire c2) = Some err
           \<longrightarrow> StorFrom E path offset c
                 = (Return (0, Some err), c2\<lparr>wire := wire c2 @ [DataCopy sock, DataClose sock]\<rparr>)"
    by (simp add: StorFrom_def Let_def Close_data_def emit_def)
  have 4: "\<forall>c2 code msg. cmdDataConnFrom E offset ''STOR %s'' [S path] c = (Return (Inr sock), c2)
           \<and> copyErr E (wire c2) = None
           \<and> response E (wire c2 @ [DataCopy sock, DataClose sock]) = Inr (code, msg)
           \<longrightarrow> StorFrom E path offset c
                 = (Return (code, if code = 226 then None else Some (TextprotoError code msg)),
                    c2\<lparr>wire := wire c2 @ [DataCopy sock, DataClose sock, ReadResponse 226]\<rparr>)"
    by (simp add: StorFrom_def Let_def Close_data_def ReadResponse_conn_def emit_def
                  expect_code Status_defs)
  from 1 2 3 4 show ?thesis by blast
qed

theorem StorFrom_closes_once_witness:
  "fst (StorFrom (script_server [Inr (229, ''Entering Extended Passive Mode (|||2000|)''),
                                 Inr (150, ''Ok to send data.''),
                                 Inr (226, ''Transfer complete.'')] [])
          ''test'' 0 session0) = Return (226, None)
   \<and> closed_sockets
        (wire (snd (StorFrom (script_server [Inr (229, ''Entering Extended Passive Mode (|||2000|)''),
                                             Inr (150, ''Ok to send data.''),
                                             Inr (226, ''Transfer complete.'')] [])
                      ''test'' 0 session0))) = [2]
   \<and> fst (StorFrom ((script_server [Inr (229, ''Entering Extended Passive Mode (|||2000|)''),
                                     Inr (150, ''Ok to send data.'')] [])
                      \<lparr>copyErr := (\<lambda>h. Some (NetError ''broken pipe''))\<rparr>)
            ''test'' 0 session0) = Return (0, Some (NetError ''broken pipe''))
   \<and> closed_sockets
        (wire (snd (StorFrom ((script_server [Inr (229, ''Entering Extended Passive Mode (|||2000|)''),
                                              Inr (150, ''Ok to send data.'')] [])
                               \<lparr>copyErr := (\<lambda>h. Some (NetError ''broken pipe''))\<rparr>)
                      ''test'' 0 session0))) = [2]"
proof -
  let ?E = "script_server [Inr (229, ''Entering Extended Passive Mode (|||2000|)''),
                                 Inr (150, ''Ok to send data.''),
                                 Inr (226, ''Transfer complete.'')] []"
  let ?F = "(script_server [Inr (229, ''Entering Extended Passive Mode (|||2000|)''),
                                     Inr (150, ''Ok to send data.'')] [])
                      \<lparr>copyErr := (\<lambda>h. Some (NetError ''broken pipe''))\<rparr>"
  let ?L = "[Cmd ''EPSV'' [], ReadResponse 229, Dial DialPlain ''127.0.0.1'' 2000]"
  have "fst (openDataConn ?E session0) = Return (Inr 2)"
    "wire (snd (openDataConn ?E session0)) = ?L"
    by code_simp+
  then obtain c1 where c1: "openDataConn ?E session0 = (Return (Inr 2), c1)" "wire c1 = ?L"
    by (cases "openDataConn ?E session0") auto
  have "fst (openDataConn ?F session0) = Return (Inr 2)"
    "wire (snd (openDataConn ?F session0)) = ?L"
    by code_simp+
  then obtain d1 where d1: "openDataConn ?F session0 = (Return (Inr 2), d1)" "wire d1 = ?L"
    by (cases "openDataConn ?F session0") auto
  from StorFrom_closes_once [OF c1(1), of "''test''" 0] c1(2)
  have 1: "closed_sockets (wire (snd (StorFrom ?E ''test'' 0 session0))) = [2]"
    by auto
  from StorFrom_closes_once [OF d1(1), of "''test''" 0] d1(2)
  have 2: "closed_sockets (wire (snd (StorFrom ?F ''test'' 0 session0))) = [2]"
    by auto
  have 3: "fst (StorFrom ?E ''test'' 0 session0) = Return (226, None)"
    by code_simp
  have 4: "fst (StorFrom ?F ''test'' 0 session0) = Return (0, Some (NetError ''broken pipe''))"
    by code_simp
  from 1 2 3 4 show ?thesis by blast
qed

subsection \<open>A read error in the middle of a listing\<close>

lemma NameList_loop_all:
  "\<forall>l\<in>set ls. snd l = None \<Longrightarrow> NameList_loop ls entries = Inr (entries @ map fst ls)"
  by (induction ls arbitrary: entries) auto

lemma List_loop_all:
  "\<forall>l\<in>set ls. snd l = None \<Longrightarrow> \<exists>es. List_loop parser ls entries = Inr es"
  by (induction ls arbitrary: entries) (auto simp: Let_def)

text \<open>
  Claim C10: when the data command has been accepted and the scanner, after yielding the
  lines \<open>ls\<close> with the context still alive, stops with a read error, \<open>NameList\<close> returns
  the names read so far together with the error, whereas \<open>List\<close> returns no entries
  together with the error.
\<close>

theorem listings_differ_on_read_error:
  "(\<forall>sock c1 ls err.
      cmdDataConnFrom E 0 ''NLST %s'' [S path] c = (Return (Inr sock), c1)
      \<and> scanned E (wire c1) = (ls, Some err) \<and> (\<forall>l\<in>set ls. snd l = None)
      \<longrightarrow> fst (NameList E path c) = Return (map fst ls, Some err))
   \<and> (\<forall>sock c1 ls err.
      cmdDataConnFrom E 0 ''%s %s'' [S (if mlstSupported c then ''MLSD'' else ''LIST''), S path] c
        = (Return (Inr sock), c1)
      \<and> scanned E (wire c1) = (ls, Some err) \<and> (\<forall>l\<in>set ls. snd l = None)
      \<longrightarrow> fst (List E path c) = Return ([], Some err))"
proof -
  have 1: "\<forall>sock c1 ls err.
      cmdDataConnFrom E 0 ''NLST %s'' [S path] c = (Return (Inr sock), c1)
      \<and> scanned E (wire c1) = (ls, Some err) \<and> (\<forall>l\<in>set ls. snd l = None)
      \<longrightarrow> fst (NameList E path c) = Return (map fst ls, Some err)"
    by (simp add: NameList_def Let_def NameList_loop_all)
  have 2: "\<forall>sock c1 ls err.
      cmdDataConnFrom E 0 ''%s %s'' [S (if mlstSupported c then ''MLSD'' else ''LIST''), S path] c
        = (Return (Inr sock), c1)
      \<and> scanned E (wire c1) = (ls, Some err) \<and> (\<forall>l\<in>set ls. snd l = None)
      \<longrightarrow> fst (List E path c) = Return ([], Some err)"
  proof (intro allI impI, elim conjE)
    fix sock c1 ls err
    assume a: "cmdDataConnFrom E 0 ''%s %s'' [S (if mlstSupported c then ''MLSD'' else ''LIST''), S path] c
        = (Return (Inr sock), c1)" "scanned E (wire c1) = (ls, Some err)" "\<forall>l\<in>set ls. snd l = None"
    let ?parser = "if mlstSupported c then parseRFC3659ListLine E else parseListLine E"
    obtain es where "List_loop ?parser ls [] = Inr es"
      using List_loop_all [OF a(3)] by blast
    with a(1,2) show "fst (List E path c) = Return ([], Some err)"
      by (simp add: List_def Let_def)
  qed
  from 1 2 show ?thesis by blast
qed

theorem listings_differ_on_read_error_witness:
  "fst (NameList ((script_server [Inr (229, ''Entering Extended Passive Mode (|||2000|)''),
                                  Inr (150, ''Here comes the directory listing.''),
                                  Inr (426, ''Failure writing network stream.'')]
                    [([(''f a.txt'', None), (''d sub'', None)], Some (NetError ''connection reset''))]))
          ''/'' session0)
     = Return ([''f a.txt'', ''d sub''], Some (NetError ''connection reset''))
   \<and> fst (List ((script_server [Inr (229, ''Entering Extended Passive Mode (|||2000|)''),
                                  Inr (150, ''Here comes the directory listing.''),
                                  Inr (426, ''Failure writing network stream.'')]
                    [([(''f a.txt'', None), (''d sub'', None)], Some (NetError ''connection reset''))]))
          ''/'' session0)
     = Return ([], Some (NetError ''connection reset''))"
proof -
  let ?E = "script_server [Inr (229, ''Entering Extended Passive Mode (|||2000|)''),
                                  Inr (150, ''Here comes the directory listing.''),
                                  Inr (426, ''Failure writing network stream.'')]
                    [([(''f a.txt'', None), (''d sub'', None)], Some (NetError ''connection reset''))]"
  let ?ls = "[(''f a.txt'', None), (''d sub'', None)] :: (string \<times> error option) list"
  have "fst (cmdDataConnFrom ?E 0 ''NLST %s'' [S ''/''] session0) = Return (Inr 2)"
    "wire (snd (cmdDataConnFrom ?E 0 ''NLST %s'' [S ''/''] session0))
       = [Cmd ''EPSV'' [], ReadResponse 229, Dial DialPlain ''127.0.0.1'' 2000,
          Cmd ''NLST %s'' [S ''/''], ReadResponse (- 1)]"
    by code_simp+
  then obtain c1 where c1: "cmdDataConnFrom ?E 0 ''NLST %s'' [S ''/''] session0 = (Return (Inr 2), c1)"
    "wire c1 = [Cmd ''EPSV'' [], ReadResponse 229, Dial DialPlain ''127.0.0.1'' 2000,
          Cmd ''NLST %s'' [S ''/''], ReadResponse (- 1)]"
    by (cases "cmdDataConnFrom ?E 0 ''NLST %s'' [S ''/''] session0") auto
  have "fst (cmdDataConnFrom ?E 0 ''%s %s'' [S ''LIST'', S ''/''] session0) = Return (Inr 2)"
    "wire (snd (cmdDataConnFrom ?E 0 ''%s %s'' [S ''LIST'', S ''/''] session0))
       = [Cmd ''EPSV'' [], ReadResponse 229, Dial DialPlain ''127.0.0.1'' 2000,
          Cmd ''%s %s'' [S ''LIST'', S ''/''], ReadResponse (- 1)]"
    by code_simp+
  then obtain d1 where d1:
    "cmdDataConnFrom ?E 0 ''%s %s'' [S ''LIST'', S ''/''] session0 = (Return (Inr 2), d1)"
    "wire d1 = [Cmd ''EPSV'' [], ReadResponse 229, Dial DialPlain ''127.0.0.1'' 2000,
          Cmd ''%s %s'' [S ''LIST'', S ''/''], ReadResponse (- 1)]"
    by (cases "cmdDataConnFrom ?E 0 ''%s %s'' [S ''LIST'', S ''/''] session0") auto
  have s: "scanned ?E (wire c1) = (?ls, Some (NetError ''connection reset''))"
    "scanned ?E (wire d1) = (?ls, Some (NetError ''connection reset''))"
    by (simp_all add: c1(2) d1(2) script_defs)
  have n: "\<forall>l\<in>set ?ls. snd l = None" by simp
  have m: "\<not> mlstSupported session0" by (simp add: session0_def)
  note t = listings_differ_on_read_error [of ?E "''/''" session0]
  from t c1(1) s(1) n
  have 1: "fst (NameList ?E ''/'' session0) = Return (map fst ?ls, Some (NetError ''connection reset''))"
    by blast
  from t d1(1) s(2) n m
  have 2: "fst (List ?E ''/'' session0) = Return ([], Some (NetError ''connection reset''))"
    by (simp del: set_simps)
  from 1 2 show ?thesis by simp
qed

subsection \<open>Recursive removal\<close>





lemma succeeded_simps [simp]:
  "succeeded (Return (code, None))" "\<not> succeeded (Return (code, Some err))" "\<not> succeeded (Panic p)"
  by (simp_all add: succeeded_def)
































end
